theory Spec2Isabelle
  imports Complex_Main
begin

section \<open>JavaScript numbers\<close>

text \<open>
  The calculation engine of FireTools (\<^verbatim>\<open>utils/hydraulics.ts\<close> and
  \<^verbatim>\<open>utils/detection.ts\<close>) works on JavaScript numbers, which are IEEE-754 doubles. The
  arithmetic is read in two ways here.

  In the exact reading a number is a real and every operation is exact. It is used where the
  property is one of exact arithmetic (C9), where the run does no arithmetic besides one
  product (the two rejections of the planner, C2 and C7), and for the friction loss at the
  reference scenario and its monotonicity (C1 and C8), which depend on \<^verbatim>\<open>Math.pow\<close>, a
  function that JavaScript does not pin down to the last bit.

  In the double reading every operation is followed by the rounding \<open>doble\<close> to the nearest
  double. It is used for everything else (C3, C4, C5, C6 and C10), where a rounding of the
  last bit can change a count or a printed decimal. The exponent of a double is not bounded
  in \<open>doble\<close>: overflow to an infinity and the loss of precision near \<open>10\<^sup>-\<^sup>3\<^sup>0\<^sup>8\<close> are not part
  of the model.

  A run in which JavaScript would produce \<^verbatim>\<open>NaN\<close> or an infinity (a division by zero, a
  root or a fractional power of a negative number, an array read past the end that is then
  used in arithmetic) has no real value; the model ends such a run with \<open>Inl NoFinito\<close>,
  where the source returns an object that holds \<^verbatim>\<open>NaN\<close> or \<^verbatim>\<open>Infinity\<close>. The one such run
  that the planner reaches with its own table, a count of zero, is kept in the double reading:
  the spacing of that axis is then a \<open>numero\<close> that is not finite. Reading a property of
  \<^verbatim>\<open>undefined\<close> throws a \<^verbatim>\<open>TypeError\<close>, which is \<open>Inl TypeError\<close>.
\<close>

datatype fallo = TypeError | NoFinito

text \<open>\<^verbatim>\<open>Math.round\<close>: the nearest integer, a tie going towards plus infinity.\<close>

definition Math_round :: "real \<Rightarrow> real" where
  "Math_round x = of_int \<lfloor>x + 1 / 2\<rfloor>"

definition Math_ceil :: "real \<Rightarrow> real" where
  "Math_ceil x = of_int \<lceil>x\<rceil>"

subsection \<open>Numbers as text\<close>

definition digito :: "nat \<Rightarrow> char" where
  "digito d = ''0123456789'' ! (d mod 10)"

fun digitos :: "nat \<Rightarrow> string" where
  "digitos n = (if n < 10 then [digito n] else digitos (n div 10) @ [digito (n mod 10)])"

declare digitos.simps [simp del]

text \<open>
  \<^verbatim>\<open>x.toFixed(2)\<close>: the sign, then the integer \<open>n\<close> nearest to \<open>\<bar>x\<bar> * 100\<close> (the larger
  one on a tie) written with a point before its last two digits. JavaScript switches to
  exponent notation from \<open>10\<^sup>2\<^sup>1\<close> on; the spacings printed by this program stay far below.
\<close>

definition toFixed2 :: "real \<Rightarrow> string" where
  "toFixed2 x =
     (let n = nat \<lfloor>\<bar>x\<bar> * 100 + 1 / 2\<rfloor>
      in (if x < 0 then ''-'' else '''') @ digitos (n div 100) @ ''.'' @
         [digito (n div 10 mod 10), digito (n mod 10)])"

text \<open>
  A number inside a template literal (\<^verbatim>\<open>${detector.alturaMaxM}\<close>): the integer part, and
  the decimals after a point when there are any. This is what JavaScript prints for a number
  that is a short decimal fraction of a magnitude between \<open>10\<^sup>-\<^sup>6\<close> and \<open>10\<^sup>2\<^sup>1\<close>, as every
  height limit of the table is (\<^verbatim>\<open>12\<close>, \<^verbatim>\<open>7.5\<close>, \<^verbatim>\<open>6\<close>, \<^verbatim>\<open>20\<close>); at most 17 decimals are
  produced.
\<close>

fun decimales :: "nat \<Rightarrow> real \<Rightarrow> string" where
  "decimales 0 f = []"
| "decimales (Suc k) f =
     (if f = 0 then []
      else let d = nat \<lfloor>f * 10\<rfloor> in digito d # decimales k (f * 10 - of_nat d))"

definition numeroATexto :: "real \<Rightarrow> string" where
  "numeroATexto x =
     (let e = nat \<lfloor>\<bar>x\<bar>\<rfloor>; f = \<bar>x\<bar> - of_nat e
      in (if x < 0 then ''-'' else '''') @ digitos e @
         (if f = 0 then '''' else ''.'' @ decimales 17 f))"

subsection \<open>Doubles\<close>

text \<open>
  The integer nearest to a real, a tie going to the even one: the rounding of the last bit
  of the significand.
\<close>

definition redondeoPar :: "real \<Rightarrow> int" where
  "redondeoPar y =
     (let n = \<lfloor>y\<rfloor>; f = y - of_int n
      in if f < 1 / 2 then n else if 1 / 2 < f then n + 1 else if even n then n else n + 1)"

text \<open>
  The double nearest to a real \<open>x\<close>: with \<open>2 ^ e \<le> \<bar>x\<bar> < 2 ^ (e + 1)\<close>, the multiple of
  \<open>2 ^ (e - 52)\<close> nearest to \<open>x\<close>, so that the significand has 53 bits. Every arithmetic
  operation of JavaScript, \<^verbatim>\<open>Math.sqrt\<close> and the reading of a decimal literal return the
  exact result rounded this way.
\<close>

definition doble :: "real \<Rightarrow> real" where
  "doble x =
     (if x = 0 then 0
      else
        let q = 2 powr of_int (\<lfloor>log 2 \<bar>x\<bar>\<rfloor> - 52)
        in of_int (redondeoPar (x / q)) * q)"

text \<open>
  A number that may fail to be finite. The planner divides a side by its count, which is
  \<^verbatim>\<open>Math.ceil\<close> of the side over a positive spacing. When the count is zero the side is zero
  and the quotient \<^verbatim>\<open>0 / 0\<close> is \<^verbatim>\<open>NaN\<close>, or the side is negative, the count is the
  negative zero that \<^verbatim>\<open>Math.ceil\<close> returns between -1 and 0, and the quotient is
  \<^verbatim>\<open>Infinity\<close>. A negative zero is the real 0 here: it prints as \<^verbatim>\<open>0\<close> and is
  \<^verbatim>\<open>=== 0\<close>.
\<close>

datatype numero = Finito real | Infinito | NaN

definition cociente :: "real \<Rightarrow> real \<Rightarrow> numero" where
  "cociente lado cuenta =
     (if cuenta = 0 then (if lado = 0 then NaN else Infinito)
      else Finito (doble (lado / cuenta)))"

text \<open>\<^verbatim>\<open>x / 2\<close>, \<^verbatim>\<open>x > u\<close> for a finite \<open>u\<close>, \<^verbatim>\<open>x.toFixed(2)\<close> and
  \<^verbatim>\<open>Math.round(x * 100) / 100\<close> for such a number.\<close>

fun mitad :: "numero \<Rightarrow> numero" where
  "mitad (Finito x) = Finito (doble (x / 2))"
| "mitad Infinito = Infinito"
| "mitad NaN = NaN"

fun mayorQue :: "numero \<Rightarrow> real \<Rightarrow> bool" where
  "mayorQue (Finito x) u = (x > u)"
| "mayorQue Infinito u = True"
| "mayorQue NaN u = False"

fun toFixed2N :: "numero \<Rightarrow> string" where
  "toFixed2N (Finito x) = toFixed2 x"
| "toFixed2N Infinito = ''Infinity''"
| "toFixed2N NaN = ''NaN''"

fun redondear2 :: "numero \<Rightarrow> numero" where
  "redondear2 (Finito x) = Finito (doble (Math_round (doble (x * 100)) / 100))"
| "redondear2 Infinito = Infinito"
| "redondear2 NaN = NaN"

section \<open>Hydraulics: \<^verbatim>\<open>utils/hydraulics.ts\<close>\<close>

record ResultadoPerdidaCarga =
  perdidaBar :: real
  velocidadMs :: real
  perdidaPorMetro :: real

text \<open>
  \<^verbatim>\<open>calcularPerdidaCarga\<close> (Hazen-Williams). The source checks nothing. With a negative flow,
  or a diameter or a coefficient that is not positive, \<^verbatim>\<open>Math.pow\<close> with the exponents
  \<^verbatim>\<open>1.852\<close> and \<^verbatim>\<open>4.87\<close> gives \<^verbatim>\<open>NaN\<close> or a divisor is zero, and a returned field is
  not a finite number. \<^verbatim>\<open>Math.pow(diametroM / 2, 2)\<close> is the square. The local constants
  \<^verbatim>\<open>velocidadMs\<close>, \<^verbatim>\<open>perdidaPorMetro\<close> and \<^verbatim>\<open>perdidaBar\<close> of the source are \<open>velocidad\<close>,
  \<open>porMetro\<close> and \<open>enBar\<close> here: the fields of the result carry the source's names.
\<close>

definition calcularPerdidaCarga ::
  "real \<Rightarrow> real \<Rightarrow> real \<Rightarrow> real \<Rightarrow> fallo + ResultadoPerdidaCarga" where
  "calcularPerdidaCarga caudalLpm diametroMm longitudM coeficienteC =
     (let caudalM3s = caudalLpm / 60000;
          diametroM = diametroMm / 1000
      in if caudalM3s < 0 \<or> diametroM \<le> 0 \<or> coeficienteC \<le> 0 then Inl NoFinito
         else
           let area = pi * (diametroM / 2) ^ 2;
               velocidad = caudalM3s / area;
               porMetro = 10.67 * caudalM3s powr 1.852 /
                 (coeficienteC powr 1.852 * diametroM powr 4.87);
               perdidaTotalM = porMetro * longitudM;
               enBar = perdidaTotalM / 10.197
           in Inr \<lparr>perdidaBar = Math_round (enBar * 1000) / 1000,
                   velocidadMs = Math_round (velocidad * 100) / 100,
                   perdidaPorMetro = Math_round (porMetro * 10000) / 10000\<rparr>)"



record ResultadoCaudal =
  caudalLpm :: real

text \<open>
  \<^verbatim>\<open>calcularCaudalRociador\<close>, on doubles: the product by 10, the square root, the product
  by the factor, the product by 10 and the quotient by 10 are each rounded to a double.
  \<^verbatim>\<open>Math.sqrt\<close> of a negative number is \<^verbatim>\<open>NaN\<close>.
\<close>

definition calcularCaudalRociador :: "real \<Rightarrow> real \<Rightarrow> fallo + ResultadoCaudal" where
  "calcularCaudalRociador factorK presionBar =
     (if doble (presionBar * 10) < 0 then Inl NoFinito
      else
        let caudal = doble (factorK * doble (sqrt (doble (presionBar * 10))))
        in Inr \<lparr>caudalLpm = doble (Math_round (doble (caudal * 10)) / 10)\<rparr>)"

section \<open>Detector spacing: \<^verbatim>\<open>utils/detection.ts\<close>\<close>

record TipoDetector =
  nombre :: string
  coberturaMaxM2 :: "real list"
  alturaMaxM :: real

definition tiposDetectores :: "TipoDetector list" where
  "tiposDetectores =
     [\<lparr>nombre = ''Detector optico de humos (puntual)'',
        coberturaMaxM2 = [80, 80, 60, 40], alturaMaxM = 12\<rparr>,
      \<lparr>nombre = ''Detector ionico de humos'',
        coberturaMaxM2 = [80, 80, 60, 40], alturaMaxM = 12\<rparr>,
      \<lparr>nombre = ''Detector termico (clase A1)'',
        coberturaMaxM2 = [30, 20, 0, 0], alturaMaxM = 7.5\<rparr>,
      \<lparr>nombre = ''Detector termico (clase A2)'',
        coberturaMaxM2 = [20, 15, 0, 0], alturaMaxM = 6\<rparr>,
      \<lparr>nombre = ''Detector termovelocimetrico'',
        coberturaMaxM2 = [30, 20, 0, 0], alturaMaxM = 7.5\<rparr>,
      \<lparr>nombre = ''Detector de llama (IR/UV)'',
        coberturaMaxM2 = [200, 200, 200, 200], alturaMaxM = 20\<rparr>]"

definition obtenerRangoAltura :: "real \<Rightarrow> nat" where
  "obtenerRangoAltura alturaM =
     (if alturaM \<le> 6 then 0
      else if alturaM \<le> 8 then 1
      else if alturaM \<le> 10 then 2
      else 3)"

record ResultadoDetectores =
  areaM2 :: real
  numDetectoresMinimo :: real
  coberturaMaximaM2 :: real
  espaciamientoMaximoM :: real
  numDetectoresReal :: real
  detectoresLargo :: real
  detectoresAncho :: real
  espaciamientoLargoM :: real
  espaciamientoAnchoM :: real
  distanciaParedLargoM :: real
  distanciaParedAnchoM :: real
  valido :: bool
  mensaje :: string
  advertencias :: "string list"

text \<open>
  \<^verbatim>\<open>calcularEspaciamientoDetectores\<close>, with the table it indexes as a parameter. An index
  outside the table reads \<^verbatim>\<open>undefined\<close>, and \<^verbatim>\<open>detector.alturaMaxM\<close> throws. A coverage
  list too short for the band reads \<^verbatim>\<open>undefined\<close>, which is not \<^verbatim>\<open>=== 0\<close> and turns the
  arithmetic into \<^verbatim>\<open>NaN\<close>, as a negative coverage does under \<^verbatim>\<open>Math.sqrt\<close>; a count of
  zero makes the spacing of that axis \<^verbatim>\<open>NaN\<close> or \<^verbatim>\<open>Infinity\<close>. The two \<^verbatim>\<open>push\<close> calls
  append to the list of warnings, which starts empty. The fields of the result carry the
  source's names, so the local constants are shortened: \<open>area\<close>, \<open>cobertura\<close>,
  \<open>espaciamientoMaximo\<close>, \<open>minimo\<close> (\<^verbatim>\<open>numDetectoresMinimo\<close>), \<open>enLargo\<close> and \<open>enAncho\<close>
  (\<^verbatim>\<open>detectoresLargo\<close>, \<^verbatim>\<open>detectoresAncho\<close>), \<open>total\<close> (\<^verbatim>\<open>numDetectoresReal\<close>) and
  \<open>avisos\<close> (\<^verbatim>\<open>advertencias\<close>).
\<close>

definition calcularEspaciamientoDetectoresEn ::
  "TipoDetector list \<Rightarrow> int \<Rightarrow> real \<Rightarrow> real \<Rightarrow> real \<Rightarrow> fallo + ResultadoDetectores" where
  "calcularEspaciamientoDetectoresEn tabla tipoDetectorIndex alturaM largoM anchoM =
     (if tipoDetectorIndex < 0 \<or> int (length tabla) \<le> tipoDetectorIndex then Inl TypeError
      else
        let detector = tabla ! nat tipoDetectorIndex;
            area = largoM * anchoM
        in
          if alturaM > alturaMaxM detector then
            Inr \<lparr>areaM2 = area,
                 numDetectoresMinimo = 0,
                 coberturaMaximaM2 = 0,
                 espaciamientoMaximoM = 0,
                 numDetectoresReal = 0,
                 detectoresLargo = 0,
                 detectoresAncho = 0,
                 espaciamientoLargoM = 0,
                 espaciamientoAnchoM = 0,
                 distanciaParedLargoM = 0,
                 distanciaParedAnchoM = 0,
                 valido = False,
                 mensaje = ''La altura maxima para este detector es '' @
                   numeroATexto (alturaMaxM detector) @ ''m'',
                 advertencias = []\<rparr>
          else
            let rangoAltura = obtenerRangoAltura alturaM
            in
              if length (coberturaMaxM2 detector) \<le> rangoAltura then Inl NoFinito
              else
                let cobertura = coberturaMaxM2 detector ! rangoAltura
                in
                  if cobertura = 0 then
                    Inr \<lparr>areaM2 = area,
                         numDetectoresMinimo = 0,
                         coberturaMaximaM2 = 0,
                         espaciamientoMaximoM = 0,
                         numDetectoresReal = 0,
                         detectoresLargo = 0,
                         detectoresAncho = 0,
                         espaciamientoLargoM = 0,
                         espaciamientoAnchoM = 0,
                         distanciaParedLargoM = 0,
                         distanciaParedAnchoM = 0,
                         valido = False,
                         mensaje = ''Este tipo de detector no es adecuado para esta altura'',
                         advertencias = []\<rparr>
                  else if cobertura < 0 then Inl NoFinito
                  else
                    let espaciamientoMaximo = sqrt cobertura;
                        minimo = Math_ceil (area / cobertura);
                        enLargo = Math_ceil (largoM / espaciamientoMaximo);
                        enAncho = Math_ceil (anchoM / espaciamientoMaximo);
                        total = enLargo * enAncho
                    in
                      if enLargo = 0 \<or> enAncho = 0 then Inl NoFinito
                      else
                        let espaciamientoLargo = largoM / enLargo;
                            espaciamientoAncho = anchoM / enAncho;
                            distanciaParedLargo = espaciamientoLargo / 2;
                            distanciaParedAncho = espaciamientoAncho / 2;
                            avisos =
                              (if espaciamientoLargo > espaciamientoMaximo * 1.05 then
                                 [''Espaciamiento en largo ('' @ toFixed2 espaciamientoLargo @
                                  ''m) supera el maximo ('' @ toFixed2 espaciamientoMaximo @
                                  ''m)'']
                               else []) @
                              (if espaciamientoAncho > espaciamientoMaximo * 1.05 then
                                 [''Espaciamiento en ancho ('' @ toFixed2 espaciamientoAncho @
                                  ''m) supera el maximo ('' @ toFixed2 espaciamientoMaximo @
                                  ''m)'']
                               else [])
                        in
                          Inr \<lparr>areaM2 = Math_round (area * 100) / 100,
                               numDetectoresMinimo = minimo,
                               coberturaMaximaM2 = cobertura,
                               espaciamientoMaximoM = Math_round (espaciamientoMaximo * 100) / 100,
                               numDetectoresReal = total,
                               detectoresLargo = enLargo,
                               detectoresAncho = enAncho,
                               espaciamientoLargoM = Math_round (espaciamientoLargo * 100) / 100,
                               espaciamientoAnchoM = Math_round (espaciamientoAncho * 100) / 100,
                               distanciaParedLargoM =
                                 Math_round (distanciaParedLargo * 100) / 100,
                               distanciaParedAnchoM =
                                 Math_round (distanciaParedAncho * 100) / 100,
                               valido = True,
                               mensaje = '''',
                               advertencias = avisos\<rparr>)"

definition calcularEspaciamientoDetectores ::
  "int \<Rightarrow> real \<Rightarrow> real \<Rightarrow> real \<Rightarrow> fallo + ResultadoDetectores" where
  "calcularEspaciamientoDetectores = calcularEspaciamientoDetectoresEn tiposDetectores"

text \<open>
  The result of the planner on doubles. The fields carry the source's names with the suffix
  \<open>_d\<close>. The spacings and the wall distances are the fields that a count of zero makes
  \<^verbatim>\<open>NaN\<close> or \<^verbatim>\<open>Infinity\<close>; every other number of the result is finite.
\<close>

record ResultadoDetectoresDoble =
  areaM2_d :: real
  numDetectoresMinimo_d :: real
  coberturaMaximaM2_d :: real
  espaciamientoMaximoM_d :: real
  numDetectoresReal_d :: real
  detectoresLargo_d :: real
  detectoresAncho_d :: real
  espaciamientoLargoM_d :: numero
  espaciamientoAnchoM_d :: numero
  distanciaParedLargoM_d :: numero
  distanciaParedAnchoM_d :: numero
  valido_d :: bool
  mensaje_d :: string
  advertencias_d :: "string list"

text \<open>
  \<^verbatim>\<open>calcularEspaciamientoDetectores\<close> on doubles, with the table as a parameter. The
  branches are those of the exact reading; every product, quotient and square root is
  rounded to a double, \<^verbatim>\<open>1.05\<close> is the double nearest to it, and a count of zero does not
  end the run: the spacing of that axis is \<open>cociente\<close> of the side and the count, which is
  then not finite. \<open>umbral\<close> is the value of \<^verbatim>\<open>espaciamientoMaximo * 1.05\<close>, which the source
  writes out in both comparisons.
\<close>

definition calcularEspaciamientoDetectoresDoble ::
  "TipoDetector list \<Rightarrow> int \<Rightarrow> real \<Rightarrow> real \<Rightarrow> real \<Rightarrow>
    fallo + ResultadoDetectoresDoble" where
  "calcularEspaciamientoDetectoresDoble tabla tipoDetectorIndex alturaM largoM anchoM =
     (if tipoDetectorIndex < 0 \<or> int (length tabla) \<le> tipoDetectorIndex then Inl TypeError
      else
        let detector = tabla ! nat tipoDetectorIndex;
            area = doble (largoM * anchoM)
        in
          if alturaM > alturaMaxM detector then
            Inr \<lparr>areaM2_d = area,
                 numDetectoresMinimo_d = 0,
                 coberturaMaximaM2_d = 0,
                 espaciamientoMaximoM_d = 0,
                 numDetectoresReal_d = 0,
                 detectoresLargo_d = 0,
                 detectoresAncho_d = 0,
                 espaciamientoLargoM_d = Finito 0,
                 espaciamientoAnchoM_d = Finito 0,
                 distanciaParedLargoM_d = Finito 0,
                 distanciaParedAnchoM_d = Finito 0,
                 valido_d = False,
                 mensaje_d = ''La altura maxima para este detector es '' @
                   numeroATexto (alturaMaxM detector) @ ''m'',
                 advertencias_d = []\<rparr>
          else
            let rangoAltura = obtenerRangoAltura alturaM
            in
              if length (coberturaMaxM2 detector) \<le> rangoAltura then Inl NoFinito
              else
                let cobertura = coberturaMaxM2 detector ! rangoAltura
                in
                  if cobertura = 0 then
                    Inr \<lparr>areaM2_d = area,
                         numDetectoresMinimo_d = 0,
                         coberturaMaximaM2_d = 0,
                         espaciamientoMaximoM_d = 0,
                         numDetectoresReal_d = 0,
                         detectoresLargo_d = 0,
                         detectoresAncho_d = 0,
                         espaciamientoLargoM_d = Finito 0,
                         espaciamientoAnchoM_d = Finito 0,
                         distanciaParedLargoM_d = Finito 0,
                         distanciaParedAnchoM_d = Finito 0,
                         valido_d = False,
                         mensaje_d = ''Este tipo de detector no es adecuado para esta altura'',
                         advertencias_d = []\<rparr>
                  else if cobertura < 0 then Inl NoFinito
                  else
                    let espaciamientoMaximo = doble (sqrt cobertura);
                        minimo = Math_ceil (doble (area / cobertura));
                        enLargo = Math_ceil (doble (largoM / espaciamientoMaximo));
                        enAncho = Math_ceil (doble (anchoM / espaciamientoMaximo));
                        total = doble (enLargo * enAncho);
                        espaciamientoLargo = cociente largoM enLargo;
                        espaciamientoAncho = cociente anchoM enAncho;
                        distanciaParedLargo = mitad espaciamientoLargo;
                        distanciaParedAncho = mitad espaciamientoAncho;
                        umbral = doble (espaciamientoMaximo * doble 1.05);
                        avisos =
                          (if mayorQue espaciamientoLargo umbral then
                             [''Espaciamiento en largo ('' @ toFixed2N espaciamientoLargo @
                              ''m) supera el maximo ('' @ toFixed2 espaciamientoMaximo @
                              ''m)'']
                           else []) @
                          (if mayorQue espaciamientoAncho umbral then
                             [''Espaciamiento en ancho ('' @ toFixed2N espaciamientoAncho @
                              ''m) supera el maximo ('' @ toFixed2 espaciamientoMaximo @
                              ''m)'']
                           else [])
                    in
                      Inr \<lparr>areaM2_d = doble (Math_round (doble (area * 100)) / 100),
                           numDetectoresMinimo_d = minimo,
                           coberturaMaximaM2_d = cobertura,
                           espaciamientoMaximoM_d =
                             doble (Math_round (doble (espaciamientoMaximo * 100)) / 100),
                           numDetectoresReal_d = total,
                           detectoresLargo_d = enLargo,
                           detectoresAncho_d = enAncho,
                           espaciamientoLargoM_d = redondear2 espaciamientoLargo,
                           espaciamientoAnchoM_d = redondear2 espaciamientoAncho,
                           distanciaParedLargoM_d = redondear2 distanciaParedLargo,
                           distanciaParedAnchoM_d = redondear2 distanciaParedAncho,
                           valido_d = True,
                           mensaje_d = '''',
                           advertencias_d = avisos\<rparr>)"

section \<open>Evaluating the helpers\<close>

lemma decimales_numeral:
  "decimales (numeral n) f =
     (if f = 0 then []
      else let d = nat \<lfloor>f * 10\<rfloor>
           in digito d # decimales (pred_numeral n) (f * 10 - of_nat d))"
  by (simp add: numeral_eq_Suc)

lemma limites_de_altura_como_texto:
  "map (\<lambda>d. numeroATexto (alturaMaxM d)) tiposDetectores =
     [''12'', ''12'', ''7.5'', ''6'', ''7.5'', ''20'']"
  by (simp add: tiposDetectores_def numeroATexto_def decimales_numeral digitos.simps
      digito_def Let_def)

lemma Math_round_mono: "x \<le> y \<Longrightarrow> Math_round x \<le> Math_round y"
  by (simp add: Math_round_def floor_mono)

section \<open>The detector layout planner\<close>

subsection \<open>The two rejections\<close>

text \<open>
  C2, as amended. For every table, every detector of it and every ceiling height above the
  detector's \<open>alturaMaxM\<close>, the planner returns a rejection: \<open>valido\<close> is false, every count,
  spacing and wall distance is zero, there is no warning, and the message names the
  detector's limit. The area is not zeroed: \<open>areaM2\<close> is the product of the two sides, not
  even rounded.
\<close>

theorem rechazo_por_altura:
  assumes "0 \<le> i" and "i < int (length tabla)" and "d = tabla ! nat i"
    and "alturaMaxM d < alturaM"
  shows "calcularEspaciamientoDetectoresEn tabla i alturaM largoM anchoM =
    Inr \<lparr>areaM2 = largoM * anchoM, numDetectoresMinimo = 0, coberturaMaximaM2 = 0,
         espaciamientoMaximoM = 0, numDetectoresReal = 0, detectoresLargo = 0,
         detectoresAncho = 0, espaciamientoLargoM = 0, espaciamientoAnchoM = 0,
         distanciaParedLargoM = 0, distanciaParedAnchoM = 0, valido = False,
         mensaje = ''La altura maxima para este detector es '' @
           numeroATexto (alturaMaxM d) @ ''m'',
         advertencias = []\<rparr>"
  using assms by (simp add: calcularEspaciamientoDetectoresEn_def Let_def)

text \<open>The thermal detector of class A1 (limit 7.5 m) under a ceiling of 9 m, room 10 m by 10 m.\<close>

theorem rechazo_por_altura_witness:
  "calcularEspaciamientoDetectores 2 9 10 10 =
    Inr \<lparr>areaM2 = 100, numDetectoresMinimo = 0, coberturaMaximaM2 = 0,
         espaciamientoMaximoM = 0, numDetectoresReal = 0, detectoresLargo = 0,
         detectoresAncho = 0, espaciamientoLargoM = 0, espaciamientoAnchoM = 0,
         distanciaParedLargoM = 0, distanciaParedAnchoM = 0, valido = False,
         mensaje = ''La altura maxima para este detector es 7.5m'',
         advertencias = []\<rparr>"
  using rechazo_por_altura [where i = 2 and tabla = tiposDetectores
      and d = "tiposDetectores ! nat 2" and alturaM = 9 and largoM = 10 and anchoM = 10]
  by (simp add: calcularEspaciamientoDetectores_def tiposDetectores_def numeroATexto_def
      decimales_numeral digitos.simps digito_def Let_def)

text \<open>
  C2 as stated fails: in that rejection the area field is 100, not zero.
\<close>

theorem rechazo_por_altura_counterexample:
  "\<exists>r. calcularEspaciamientoDetectores 2 9 10 10 = Inr r \<and> valido r = False \<and>
       numDetectoresReal r = 0 \<and> areaM2 r = 100 \<and> areaM2 r \<noteq> 0"
  by (simp add: calcularEspaciamientoDetectores_def calcularEspaciamientoDetectoresEn_def
      tiposDetectores_def Let_def)

text \<open>
  C7. For every detector and every ceiling height within its limit, the band is the one of
  the breakpoints 6, 8 and 10 m; when the coverage of that band is 0 the planner returns a
  rejection with \<open>valido\<close> false and the message of an unsuitable detector, which is not
  the message of an exceeded height.
\<close>

theorem rechazo_por_cobertura_nula:
  assumes "0 \<le> i" and "i < int (length tabla)" and "d = tabla ! nat i"
    and "alturaM \<le> alturaMaxM d"
    and "banda = (if alturaM \<le> 6 then 0 else if alturaM \<le> 8 then 1
                  else if alturaM \<le> 10 then 2 else 3)"
    and "banda < length (coberturaMaxM2 d)"
    and "coberturaMaxM2 d ! banda = 0"
  shows "obtenerRangoAltura alturaM = banda \<and>
    calcularEspaciamientoDetectoresEn tabla i alturaM largoM anchoM =
      Inr \<lparr>areaM2 = largoM * anchoM, numDetectoresMinimo = 0, coberturaMaximaM2 = 0,
           espaciamientoMaximoM = 0, numDetectoresReal = 0, detectoresLargo = 0,
           detectoresAncho = 0, espaciamientoLargoM = 0, espaciamientoAnchoM = 0,
           distanciaParedLargoM = 0, distanciaParedAnchoM = 0, valido = False,
           mensaje = ''Este tipo de detector no es adecuado para esta altura'',
           advertencias = []\<rparr> \<and>
    ''Este tipo de detector no es adecuado para esta altura'' \<noteq>
      ''La altura maxima para este detector es '' @ numeroATexto (alturaMaxM d) @ ''m''"
proof -
  have b: "obtenerRangoAltura alturaM = banda"
    using assms(5) by (simp add: obtenerRangoAltura_def)
  have "\<not> alturaM > alturaMaxM (tabla ! nat i)"
    and "\<not> length (coberturaMaxM2 (tabla ! nat i)) \<le> obtenerRangoAltura alturaM"
    and "coberturaMaxM2 (tabla ! nat i) ! obtenerRangoAltura alturaM = 0"
    using assms(3,4,6,7) b by simp_all
  then have "calcularEspaciamientoDetectoresEn tabla i alturaM largoM anchoM =
      Inr \<lparr>areaM2 = largoM * anchoM, numDetectoresMinimo = 0, coberturaMaximaM2 = 0,
           espaciamientoMaximoM = 0, numDetectoresReal = 0, detectoresLargo = 0,
           detectoresAncho = 0, espaciamientoLargoM = 0, espaciamientoAnchoM = 0,
           distanciaParedLargoM = 0, distanciaParedAnchoM = 0, valido = False,
           mensaje = ''Este tipo de detector no es adecuado para esta altura'',
           advertencias = []\<rparr>"
    using assms(1,2) by (simp add: calcularEspaciamientoDetectoresEn_def Let_def)
  with b show ?thesis
    by simp
qed

text \<open>
  A detector class with no coverage in the second band, under a ceiling of 7 m. No detector
  of \<open>tiposDetectores\<close> can stand here: see \<open>cobertura_de_tabla_positiva\<close> below.
\<close>

theorem rechazo_por_cobertura_nula_witness:
  "obtenerRangoAltura 7 = 1 \<and>
   calcularEspaciamientoDetectoresEn
     [\<lparr>nombre = ''Detector de prueba'', coberturaMaxM2 = [30, 0, 0, 0], alturaMaxM = 7.5\<rparr>]
     0 7 10 10 =
      Inr \<lparr>areaM2 = 100, numDetectoresMinimo = 0, coberturaMaximaM2 = 0,
           espaciamientoMaximoM = 0, numDetectoresReal = 0, detectoresLargo = 0,
           detectoresAncho = 0, espaciamientoLargoM = 0, espaciamientoAnchoM = 0,
           distanciaParedLargoM = 0, distanciaParedAnchoM = 0, valido = False,
           mensaje = ''Este tipo de detector no es adecuado para esta altura'',
           advertencias = []\<rparr> \<and>
   ''Este tipo de detector no es adecuado para esta altura'' \<noteq>
     ''La altura maxima para este detector es 7.5m''"
  using rechazo_por_cobertura_nula [where i = 0
      and tabla = "[\<lparr>nombre = ''Detector de prueba'', coberturaMaxM2 = [30, 0, 0, 0],
                      alturaMaxM = 7.5\<rparr>]"
      and d = "\<lparr>nombre = ''Detector de prueba'', coberturaMaxM2 = [30, 0, 0, 0],
                 alturaMaxM = 7.5\<rparr>"
      and alturaM = 7 and banda = 1 and largoM = 10 and anchoM = 10]
  by simp

text \<open>
  In the table that ships, every band a detector can reach has a positive coverage: the
  second rejection is never returned by \<open>calcularEspaciamientoDetectores\<close>.
\<close>

lemma cobertura_de_tabla_positiva:
  assumes "0 \<le> i" and "i < 6" and "alturaM \<le> alturaMaxM (tiposDetectores ! nat i)"
  shows "obtenerRangoAltura alturaM < length (coberturaMaxM2 (tiposDetectores ! nat i)) \<and>
         0 < coberturaMaxM2 (tiposDetectores ! nat i) ! obtenerRangoAltura alturaM"
proof -
  from assms(1,2) consider "i = 0" | "i = 1" | "i = 2" | "i = 3" | "i = 4" | "i = 5"
    by linarith
  then show ?thesis
    using assms(3)
    by cases (simp_all add: tiposDetectores_def obtenerRangoAltura_def)
qed

subsection \<open>The accepted path\<close>

text \<open>
  What the planner returns once both rejections are passed and both counts are different
  from zero, field by field.
\<close>

lemma planificacion_aceptada:
  assumes "0 \<le> i" and "i < int (length tabla)" and "d = tabla ! nat i"
    and "alturaM \<le> alturaMaxM d"
    and "obtenerRangoAltura alturaM < length (coberturaMaxM2 d)"
    and "c = coberturaMaxM2 d ! obtenerRangoAltura alturaM" and "0 < c"
    and "\<lceil>largoM / sqrt c\<rceil> \<noteq> 0" and "\<lceil>anchoM / sqrt c\<rceil> \<noteq> 0"
  shows "calcularEspaciamientoDetectoresEn tabla i alturaM largoM anchoM =
    Inr \<lparr>areaM2 = Math_round (largoM * anchoM * 100) / 100,
         numDetectoresMinimo = of_int \<lceil>largoM * anchoM / c\<rceil>,
         coberturaMaximaM2 = c,
         espaciamientoMaximoM = Math_round (sqrt c * 100) / 100,
         numDetectoresReal = of_int \<lceil>largoM / sqrt c\<rceil> * of_int \<lceil>anchoM / sqrt c\<rceil>,
         detectoresLargo = of_int \<lceil>largoM / sqrt c\<rceil>,
         detectoresAncho = of_int \<lceil>anchoM / sqrt c\<rceil>,
         espaciamientoLargoM = Math_round (largoM / of_int \<lceil>largoM / sqrt c\<rceil> * 100) / 100,
         espaciamientoAnchoM = Math_round (anchoM / of_int \<lceil>anchoM / sqrt c\<rceil> * 100) / 100,
         distanciaParedLargoM =
           Math_round (largoM / of_int \<lceil>largoM / sqrt c\<rceil> / 2 * 100) / 100,
         distanciaParedAnchoM =
           Math_round (anchoM / of_int \<lceil>anchoM / sqrt c\<rceil> / 2 * 100) / 100,
         valido = True,
         mensaje = '''',
         advertencias =
           (if largoM / of_int \<lceil>largoM / sqrt c\<rceil> > sqrt c * 1.05 then
              [''Espaciamiento en largo ('' @ toFixed2 (largoM / of_int \<lceil>largoM / sqrt c\<rceil>) @
               ''m) supera el maximo ('' @ toFixed2 (sqrt c) @ ''m)'']
            else []) @
           (if anchoM / of_int \<lceil>anchoM / sqrt c\<rceil> > sqrt c * 1.05 then
              [''Espaciamiento en ancho ('' @ toFixed2 (anchoM / of_int \<lceil>anchoM / sqrt c\<rceil>) @
               ''m) supera el maximo ('' @ toFixed2 (sqrt c) @ ''m)'']
            else [])\<rparr>"
proof -
  have "\<not> alturaM > alturaMaxM (tabla ! nat i)"
    and "\<not> length (coberturaMaxM2 (tabla ! nat i)) \<le> obtenerRangoAltura alturaM"
    and "coberturaMaxM2 (tabla ! nat i) ! obtenerRangoAltura alturaM = c"
    using assms by simp_all
  moreover have "c \<noteq> 0" and "\<not> c < 0"
    using assms by simp_all
  ultimately show ?thesis
    using assms(1,2,8,9)
    by (simp add: calcularEspaciamientoDetectoresEn_def Let_def Math_ceil_def)
qed

text \<open>Ceiling division: a positive side gives a positive count, and a spacing within the maximum.\<close>

lemma techo_positivo:
  fixes l s :: real
  assumes "0 < l" and "0 < s"
  shows "0 < \<lceil>l / s\<rceil>"
  using assms by (simp add: ceiling_less_iff)

lemma espaciamiento_real_acotado:
  fixes l s :: real
  assumes "0 < l" and "0 < s"
  shows "l / of_int \<lceil>l / s\<rceil> \<le> s"
proof -
  have n: "0 < (of_int \<lceil>l / s\<rceil> :: real)"
    using techo_positivo [OF assms] by simp
  have "l / s \<le> of_int \<lceil>l / s\<rceil>"
    by (rule le_of_int_ceiling)
  then have "l \<le> of_int \<lceil>l / s\<rceil> * s"
    by (simp only: pos_divide_le_eq [OF assms(2)])
  then have "l \<le> s * of_int \<lceil>l / s\<rceil>"
    by (simp only: mult.commute)
  then show ?thesis
    by (simp only: pos_divide_le_eq [OF n])
qed

text \<open>
  In exact arithmetic the grid never has fewer detectors than the theoretical minimum.
\<close>

lemma minimo_le_real:
  fixes l w c :: real
  assumes "0 < l" and "0 < w" and "0 < c"
  shows "\<lceil>l * w / c\<rceil> \<le> \<lceil>l / sqrt c\<rceil> * \<lceil>w / sqrt c\<rceil>"
proof -
  have s: "0 < sqrt c" using assms(3) by simp
  have "l * w / c = (l / sqrt c) * (w / sqrt c)"
    using assms(3) by simp
  also have "\<dots> \<le> of_int \<lceil>l / sqrt c\<rceil> * of_int \<lceil>w / sqrt c\<rceil>"
  proof (rule mult_mono)
    show "l / sqrt c \<le> of_int \<lceil>l / sqrt c\<rceil>" by (rule le_of_int_ceiling)
    show "w / sqrt c \<le> of_int \<lceil>w / sqrt c\<rceil>" by (rule le_of_int_ceiling)
    show "0 \<le> (of_int \<lceil>l / sqrt c\<rceil> :: real)"
      using techo_positivo [OF assms(1) s] by simp
    show "0 \<le> w / sqrt c" using assms(2) s by simp
  qed
  finally have "l * w / c \<le> of_int (\<lceil>l / sqrt c\<rceil> * \<lceil>w / sqrt c\<rceil>)"
    by simp
  then show ?thesis
    by (rule ceiling_le)
qed


subsection \<open>The thermal detector under a low ceiling\<close>

text \<open>
  The thermal detector of class A1 under a ceiling of 3 m: first band, coverage 30.
\<close>

lemma detector_2_premisas:
  "(0::int) \<le> 2" "2 < int (length tiposDetectores)"
  "3 \<le> alturaMaxM (tiposDetectores ! nat 2)"
  "obtenerRangoAltura 3 < length (coberturaMaxM2 (tiposDetectores ! nat 2))"
  "30 = coberturaMaxM2 (tiposDetectores ! nat 2) ! obtenerRangoAltura 3"
  "(0::real) < 30"
  by (simp_all add: tiposDetectores_def obtenerRangoAltura_def)

subsection \<open>The grid in exact arithmetic\<close>

text \<open>
  C9. For every accepted layout of a room with positive length and width, the real spacing
  on each axis (the side over its count) is at most the maximum spacing itself, so neither
  warning is produced: the list of warnings is empty.
\<close>

theorem sin_advertencias:
  assumes "0 \<le> i" and "i < int (length tabla)" and "d = tabla ! nat i"
    and "alturaM \<le> alturaMaxM d"
    and "obtenerRangoAltura alturaM < length (coberturaMaxM2 d)"
    and "c = coberturaMaxM2 d ! obtenerRangoAltura alturaM" and "0 < c"
    and "0 < largoM" and "0 < anchoM"
  shows "\<exists>r. calcularEspaciamientoDetectoresEn tabla i alturaM largoM anchoM = Inr r \<and>
    valido r \<and>
    largoM / detectoresLargo r \<le> sqrt c \<and>
    anchoM / detectoresAncho r \<le> sqrt c \<and>
    advertencias r = []"
proof -
  have s: "0 < sqrt c"
    using assms(7) by simp
  have n: "\<lceil>largoM / sqrt c\<rceil> \<noteq> 0" "\<lceil>anchoM / sqrt c\<rceil> \<noteq> 0"
    using techo_positivo [OF assms(8) s] techo_positivo [OF assms(9) s] by linarith+
  have l: "largoM / of_int \<lceil>largoM / sqrt c\<rceil> \<le> sqrt c"
    by (rule espaciamiento_real_acotado [OF assms(8) s])
  have a: "anchoM / of_int \<lceil>anchoM / sqrt c\<rceil> \<le> sqrt c"
    by (rule espaciamiento_real_acotado [OF assms(9) s])
  have "sqrt c \<le> sqrt c * 1.05"
    using s by simp
  then have "\<not> largoM / of_int \<lceil>largoM / sqrt c\<rceil> > sqrt c * 1.05"
    and "\<not> anchoM / of_int \<lceil>anchoM / sqrt c\<rceil> > sqrt c * 1.05"
    using l a by linarith+
  then show ?thesis
    using l a by (subst planificacion_aceptada [OF assms(1-7) n]) simp
qed

theorem sin_advertencias_witness:
  "\<exists>r. calcularEspaciamientoDetectores 2 3 10 10 = Inr r \<and> valido r \<and>
    10 / detectoresLargo r \<le> sqrt 30 \<and> 10 / detectoresAncho r \<le> sqrt 30 \<and>
    advertencias r = []"
  using sin_advertencias [where i = 2 and tabla = tiposDetectores
        and d = "tiposDetectores ! nat 2" and alturaM = 3 and c = 30
        and largoM = 10 and anchoM = 10, OF detector_2_premisas(1,2) refl
          detector_2_premisas(3,4,5,6)]
  by (simp add: calcularEspaciamientoDetectores_def)

section \<open>The friction loss in exact arithmetic\<close>

subsection \<open>Friction loss: the formula\<close>

text \<open>What the calculator returns for a flow that is not negative, a positive diameter and a
  positive coefficient, whatever the length.\<close>

lemma perdida_carga_valores:
  assumes "0 \<le> caudal" and "0 < diametro" and "0 < coeficiente"
  shows "calcularPerdidaCarga caudal diametro longitud coeficiente =
    Inr \<lparr>perdidaBar =
           Math_round (10.67 * (caudal / 60000) powr 1.852 /
             (coeficiente powr 1.852 * (diametro / 1000) powr 4.87) * longitud /
             10.197 * 1000) / 1000,
         velocidadMs =
           Math_round (caudal / 60000 / (pi * (diametro / 1000 / 2) ^ 2) * 100) / 100,
         perdidaPorMetro =
           Math_round (10.67 * (caudal / 60000) powr 1.852 /
             (coeficiente powr 1.852 * (diametro / 1000) powr 4.87) * 10000) / 10000\<rparr>"
proof -
  have "\<not> (caudal / 60000 < 0 \<or> diametro / 1000 \<le> 0 \<or> coeficiente \<le> 0)"
    using assms by simp
  then show ?thesis
    unfolding calcularPerdidaCarga_def Let_def by (simp only: if_False)
qed

section \<open>Numeric bounds for the reference scenario of the friction loss\<close>

subsection \<open>Bounds on powers by interval arithmetic\<close>

text \<open>
  A bound on \<open>u ^ n\<close> is built from bounds on \<open>u ^ j\<close> and \<open>u ^ k\<close> with \<open>n = j + k\<close>,
  rounded outwards at 14 decimals, so that no step multiplies large numerals. The chains
  below bound the 125th root of 120 and the 100th root of 20, and their 88th and 87th powers.
\<close>

lemma potencia_sup:
  fixes u a b c :: real
  assumes "0 \<le> u" and "u ^ j \<le> a" and "u ^ k \<le> b" and "a * b \<le> c" and "n = j + k"
  shows "u ^ n \<le> c"
proof -
  have "0 \<le> u ^ j" and "0 \<le> u ^ k"
    using assms(1) by simp_all
  then have "u ^ j * u ^ k \<le> a * b"
    using assms(2,3) by (intro mult_mono) simp_all
  then show ?thesis
    using assms(4,5) by (simp add: power_add)
qed

lemma potencia_inf:
  fixes u a b c :: real
  assumes "a \<le> u ^ j" and "b \<le> u ^ k" and "0 \<le> a" and "0 \<le> b" and "c \<le> a * b"
    and "n = j + k"
  shows "c \<le> u ^ n"
proof -
  have "a * b \<le> u ^ j * u ^ k"
    using assms(1-4) by (intro mult_mono) simp_all
  then show ?thesis
    using assms(5,6) by (simp add: power_add)
qed

lemma raiz_v_inf_aux:
  fixes u :: real
  assumes "u = 1.039042830359"
  shows "u ^ 125 \<le> 120"
proof -
  have u: "0 \<le> u"
    using assms by simp
  have p1: "u ^ 1 \<le> 1.039042830359"
    using assms by simp
  have p2: "u ^ 2 \<le> 1.07961000332045"
    by (rule potencia_sup [OF u p1 p1]) simp_all
  have p3: "u ^ 3 \<le> 1.12176103353397"
    by (rule potencia_sup [OF u p2 p1]) simp_all
  have p6: "u ^ 6 \<le> 1.25834781635521"
    by (rule potencia_sup [OF u p3 p3]) simp_all
  have p7: "u ^ 7 \<le> 1.30747727668179"
    by (rule potencia_sup [OF u p6 p1]) simp_all
  have p14: "u ^ 14 \<le> 1.70949682903924"
    by (rule potencia_sup [OF u p7 p7]) simp_all
  have p15: "u ^ 15 \<le> 1.77624042373467"
    by (rule potencia_sup [OF u p14 p1]) simp_all
  have p30: "u ^ 30 \<le> 3.15503004290913"
    by (rule potencia_sup [OF u p15 p15]) simp_all
  have p31: "u ^ 31 \<le> 3.27821134565198"
    by (rule potencia_sup [OF u p30 p1]) simp_all
  have p62: "u ^ 62 \<le> 10.74666962676137"
    by (rule potencia_sup [OF u p31 p31]) simp_all
  have p124: "u ^ 124 \<le> 115.49090806675537"
    by (rule potencia_sup [OF u p62 p62]) simp_all
  show ?thesis
    by (rule potencia_sup [OF u p124 p1]) simp_all
qed

lemma raiz_v_sup_aux:
  fixes u :: real
  assumes "u = 1.03904283036"
  shows "120 \<le> u ^ 125"
proof -
  have p1: "1.03904283036 \<le> u ^ 1"
    using assms by simp
  have p2: "1.07961000332251 \<le> u ^ 2"
    by (rule potencia_inf [OF p1 p1]) simp_all
  have p3: "1.12176103353718 \<le> u ^ 3"
    by (rule potencia_inf [OF p2 p1]) simp_all
  have p6: "1.2583478163624 \<le> u ^ 6"
    by (rule potencia_inf [OF p3 p3]) simp_all
  have p7: "1.30747727669051 \<le> u ^ 7"
    by (rule potencia_inf [OF p6 p1]) simp_all
  have p14: "1.70949682906203 \<le> u ^ 14"
    by (rule potencia_inf [OF p7 p7]) simp_all
  have p15: "1.77624042376005 \<le> u ^ 15"
    by (rule potencia_inf [OF p14 p1]) simp_all
  have p30: "3.15503004299928 \<le> u ^ 30"
    by (rule potencia_inf [OF p15 p15]) simp_all
  have p31: "3.2782113457488 \<le> u ^ 31"
    by (rule potencia_inf [OF p30 p1]) simp_all
  have p62: "10.74666962739615 \<le> u ^ 62"
    by (rule potencia_inf [OF p31 p31]) simp_all
  have p124: "115.4909080803989 \<le> u ^ 124"
    by (rule potencia_inf [OF p62 p62]) simp_all
  show ?thesis
    by (rule potencia_inf [OF p124 p1]) simp_all
qed

lemma potencia_v_sup:
  fixes u :: real
  assumes "0 \<le> u" and "u \<le> 1.03904283036"
  shows "u ^ 88 \<le> 29.08999169441869"
proof -
  have u: "0 \<le> u"
    using assms by simp
  have p1: "u ^ 1 \<le> 1.03904283036"
    using assms by simp
  have p2: "u ^ 2 \<le> 1.07961000332252"
    by (rule potencia_sup [OF u p1 p1]) simp_all
  have p4: "u ^ 4 \<le> 1.16555775927406"
    by (rule potencia_sup [OF u p2 p2]) simp_all
  have p5: "u ^ 5 \<le> 1.21106443314418"
    by (rule potencia_sup [OF u p4 p1]) simp_all
  have p10: "u ^ 10 \<le> 1.46667706122684"
    by (rule potencia_sup [OF u p5 p5]) simp_all
  have p11: "u ^ 11 \<le> 1.52394028492123"
    by (rule potencia_sup [OF u p10 p1]) simp_all
  have p22: "u ^ 22 \<le> 2.3223939920058"
    by (rule potencia_sup [OF u p11 p11]) simp_all
  have p44: "u ^ 44 \<le> 5.39351385410464"
    by (rule potencia_sup [OF u p22 p22]) simp_all
  show ?thesis
    by (rule potencia_sup [OF u p44 p44]) simp_all
qed

lemma potencia_v_inf:
  fixes u :: real
  assumes "1.039042830359 \<le> u"
  shows "29.08999169194295 \<le> u ^ 88"
proof -
  have p1: "1.039042830359 \<le> u ^ 1"
    using assms by simp
  have p2: "1.07961000332044 \<le> u ^ 2"
    by (rule potencia_inf [OF p1 p1]) simp_all
  have p4: "1.16555775926956 \<le> u ^ 4"
    by (rule potencia_inf [OF p2 p2]) simp_all
  have p5: "1.21106443313833 \<le> u ^ 5"
    by (rule potencia_inf [OF p4 p1]) simp_all
  have p10: "1.46667706121266 \<le> u ^ 10"
    by (rule potencia_inf [OF p5 p5]) simp_all
  have p11: "1.52394028490502 \<le> u ^ 11"
    by (rule potencia_inf [OF p10 p1]) simp_all
  have p22: "2.32239399195639 \<le> u ^ 22"
    by (rule potencia_inf [OF p11 p11]) simp_all
  have p44: "5.39351385387513 \<le> u ^ 44"
    by (rule potencia_inf [OF p22 p22]) simp_all
  show ?thesis
    by (rule potencia_inf [OF p44 p44]) simp_all
qed

lemma raiz_w_inf_aux:
  fixes u :: real
  assumes "u = 1.030410557911"
  shows "u ^ 100 \<le> 20"
proof -
  have u: "0 \<le> u"
    using assms by simp
  have p1: "u ^ 1 \<le> 1.030410557911"
    using assms by simp
  have p2: "u ^ 2 \<le> 1.06174591785446"
    by (rule potencia_sup [OF u p1 p1]) simp_all
  have p3: "u ^ 3 \<le> 1.09403420357615"
    by (rule potencia_sup [OF u p2 p1]) simp_all
  have p6: "u ^ 6 \<le> 1.19691083859451"
    by (rule potencia_sup [OF u p3 p3]) simp_all
  have p12: "u ^ 12 \<le> 1.43259555554502"
    by (rule potencia_sup [OF u p6 p6]) simp_all
  have p24: "u ^ 24 \<le> 2.05233002576735"
    by (rule potencia_sup [OF u p12 p12]) simp_all
  have p25: "u ^ 25 \<le> 2.11474252686844"
    by (rule potencia_sup [OF u p24 p1]) simp_all
  have p50: "u ^ 50 \<le> 4.47213595494592"
    by (rule potencia_sup [OF u p25 p25]) simp_all
  show ?thesis
    by (rule potencia_sup [OF u p50 p50]) simp_all
qed

lemma raiz_w_sup_aux:
  fixes u :: real
  assumes "u = 1.030410557912"
  shows "20 \<le> u ^ 100"
proof -
  have p1: "1.030410557912 \<le> u ^ 1"
    using assms by simp
  have p2: "1.06174591785651 \<le> u ^ 2"
    by (rule potencia_inf [OF p1 p1]) simp_all
  have p3: "1.09403420357931 \<le> u ^ 3"
    by (rule potencia_inf [OF p2 p1]) simp_all
  have p6: "1.19691083860141 \<le> u ^ 6"
    by (rule potencia_inf [OF p3 p3]) simp_all
  have p12: "1.43259555556153 \<le> u ^ 12"
    by (rule potencia_inf [OF p6 p6]) simp_all
  have p24: "2.05233002581464 \<le> u ^ 24"
    by (rule potencia_inf [OF p12 p12]) simp_all
  have p25: "2.11474252691921 \<le> u ^ 25"
    by (rule potencia_inf [OF p24 p1]) simp_all
  have p50: "4.47213595516064 \<le> u ^ 50"
    by (rule potencia_inf [OF p25 p25]) simp_all
  show ?thesis
    by (rule potencia_inf [OF p50 p50]) simp_all
qed

lemma potencia_w_sup:
  fixes u :: real
  assumes "0 \<le> u" and "u \<le> 1.030410557912"
  shows "u ^ 87 \<le> 13.54865225841699"
proof -
  have u: "0 \<le> u"
    using assms by simp
  have p1: "u ^ 1 \<le> 1.030410557912"
    using assms by simp
  have p2: "u ^ 2 \<le> 1.06174591785652"
    by (rule potencia_sup [OF u p1 p1]) simp_all
  have p4: "u ^ 4 \<le> 1.12730439408499"
    by (rule potencia_sup [OF u p2 p2]) simp_all
  have p5: "u ^ 5 \<le> 1.16158634964577"
    by (rule potencia_sup [OF u p4 p1]) simp_all
  have p10: "u ^ 10 \<le> 1.34928284768339"
    by (rule potencia_sup [OF u p5 p5]) simp_all
  have p20: "u ^ 20 \<le> 1.8205642030526"
    by (rule potencia_sup [OF u p10 p10]) simp_all
  have p21: "u ^ 21 \<le> 1.87592857618205"
    by (rule potencia_sup [OF u p20 p1]) simp_all
  have p42: "u ^ 42 \<le> 3.51910802293642"
    by (rule potencia_sup [OF u p21 p21]) simp_all
  have p43: "u ^ 43 \<le> 3.62612606126652"
    by (rule potencia_sup [OF u p42 p1]) simp_all
  have p86: "u ^ 86 \<le> 13.14879021219625"
    by (rule potencia_sup [OF u p43 p43]) simp_all
  show ?thesis
    by (rule potencia_sup [OF u p86 p1]) simp_all
qed

lemma potencia_w_inf:
  fixes u :: real
  assumes "1.030410557911 \<le> u"
  shows "13.54865225726339 \<le> u ^ 87"
proof -
  have p1: "1.030410557911 \<le> u ^ 1"
    using assms by simp
  have p2: "1.06174591785445 \<le> u ^ 2"
    by (rule potencia_inf [OF p1 p1]) simp_all
  have p4: "1.12730439408058 \<le> u ^ 4"
    by (rule potencia_inf [OF p2 p2]) simp_all
  have p5: "1.16158634964009 \<le> u ^ 5"
    by (rule potencia_inf [OF p4 p1]) simp_all
  have p10: "1.34928284767018 \<le> u ^ 10"
    by (rule potencia_inf [OF p5 p5]) simp_all
  have p20: "1.82056420301695 \<le> u ^ 20"
    by (rule potencia_inf [OF p10 p10]) simp_all
  have p21: "1.87592857614349 \<le> u ^ 21"
    by (rule potencia_inf [OF p20 p1]) simp_all
  have p42: "3.51910802279174 \<le> u ^ 42"
    by (rule potencia_inf [OF p21 p21]) simp_all
  have p43: "3.62612606111391 \<le> u ^ 43"
    by (rule potencia_inf [OF p42 p1]) simp_all
  have p86: "13.14879021108947 \<le> u ^ 86"
    by (rule potencia_inf [OF p43 p43]) simp_all
  show ?thesis
    by (rule potencia_inf [OF p86 p1]) simp_all
qed


subsection \<open>The loss per metre at 500 L/min, 50 mm and C = 120\<close>

lemma base_le_de_potencia:
  fixes a b :: real
  assumes "a ^ n \<le> b ^ n" and "0 \<le> b" and "0 < n"
  shows "a \<le> b"
proof (rule ccontr)
  assume "\<not> a \<le> b"
  then have "b < a"
    by simp
  then have "b ^ n < a ^ n"
    using assms(2,3) by (rule power_strict_mono)
  with assms(1) show False
    by simp
qed

lemma raiz_v_cotas:
  "1.039042830359 \<le> (120::real) powr (1 / 125)" "(120::real) powr (1 / 125) \<le> 1.03904283036"
proof -
  let ?v = "120 powr (1 / 125) :: real"
  have e: "?v ^ 125 = 120"
    using powr_power [of "120::real" "1 / 125" 125] by simp
  have "(1.039042830359 :: real) ^ 125 \<le> ?v ^ 125"
    unfolding e by (rule raiz_v_inf_aux [OF refl])
  then show "1.039042830359 \<le> ?v"
    by (rule base_le_de_potencia) simp_all
  have "?v ^ 125 \<le> (1.03904283036 :: real) ^ 125"
    unfolding e by (rule raiz_v_sup_aux [OF refl])
  then show "?v \<le> 1.03904283036"
    by (rule base_le_de_potencia) simp_all
qed

lemma raiz_w_cotas:
  "1.030410557911 \<le> (20::real) powr (1 / 100)" "(20::real) powr (1 / 100) \<le> 1.030410557912"
proof -
  let ?w = "20 powr (1 / 100) :: real"
  have e: "?w ^ 100 = 20"
    using powr_power [of "20::real" "1 / 100" 100] by simp
  have "(1.030410557911 :: real) ^ 100 \<le> ?w ^ 100"
    unfolding e by (rule raiz_w_inf_aux [OF refl])
  then show "1.030410557911 \<le> ?w"
    by (rule base_le_de_potencia) simp_all
  have "?w ^ 100 \<le> (1.030410557912 :: real) ^ 100"
    unfolding e by (rule raiz_w_sup_aux [OF refl])
  then show "?w \<le> 1.030410557912"
    by (rule base_le_de_potencia) simp_all
qed

lemma perdida_por_metro_escenario1:
  "(0.4601433 :: real)
     \<le> 10.67 * (500 / 60000) powr 1.852 / (120 powr 1.852 * (50 / 1000) powr 4.87)"
  "10.67 * (500 / 60000) powr 1.852 / (120 powr 1.852 * (50 / 1000) powr 4.87)
     \<le> (0.4601434 :: real)"
proof -
  define B where "B = (120 :: real) powr 1.852"
  define E where "E = (20 :: real) powr 4.87"
  define V where "V = ((120 :: real) powr (1 / 125)) ^ 88"
  define W where "W = ((20 :: real) powr (1 / 100)) ^ 87"
  have V: "29.08999169194295 \<le> V" "V \<le> 29.08999169441869"
    unfolding V_def
    using potencia_v_inf [OF raiz_v_cotas(1)] potencia_v_sup [OF _ raiz_v_cotas(2)]
    by simp_all
  have W: "13.54865225726339 \<le> W" "W \<le> 13.54865225841699"
    unfolding W_def
    using potencia_w_inf [OF raiz_w_cotas(1)] potencia_w_sup [OF _ raiz_w_cotas(2)]
    by simp_all
  have "V = 120 powr (88 / 125)"
    unfolding V_def using powr_power [of "120::real" "1 / 125" 88] by simp
  moreover have "B * B = 120 powr (1.852 + 1.852)"
    unfolding B_def by (simp only: powr_add)
  moreover have "(120::real) powr (3 + 88 / 125) = 120 powr 3 * 120 powr (88 / 125)"
    by (rule powr_add)
  moreover have "(1.852 + 1.852 :: real) = 3 + 88 / 125"
    by simp
  ultimately have BB: "B * B = 1728000 * V"
    by simp
  have "W = 20 powr (87 / 100)"
    unfolding W_def using powr_power [of "20::real" "1 / 100" 87] by simp
  moreover have "(20::real) powr (4 + 87 / 100) = 20 powr 4 * 20 powr (87 / 100)"
    by (rule powr_add)
  moreover have "(4.87 :: real) = 4 + 87 / 100"
    by simp
  ultimately have EE: "E = 160000 * W"
    unfolding E_def by simp
  have B0: "0 < B" and E0: "0 < E"
    unfolding B_def E_def by simp_all
  have a: "(500 / 60000 :: real) powr 1.852 = 1 / B"
    unfolding B_def by (simp add: powr_divide)
  have b: "(50 / 1000 :: real) powr 4.87 = 1 / E"
    unfolding E_def by (simp add: powr_divide)
  have "10.67 * (500 / 60000) powr 1.852 / (120 powr 1.852 * (50 / 1000) powr 4.87)
      = 10.67 * (1 / B) / (B * (1 / E))"
    unfolding a b B_def [symmetric] ..
  also have "\<dots> = 10.67 * E / (B * B)"
    using B0 E0 by (simp add: field_simps)
  also have "\<dots> = 10.67 * (160000 * W) / (1728000 * V)"
    unfolding BB EE ..
  finally have J: "10.67 * (500 / 60000) powr 1.852 /
      (120 powr 1.852 * (50 / 1000) powr 4.87) = 10.67 * (160000 * W) / (1728000 * V)" .
  have "0.4601433 \<le> 10.67 * (160000 * 13.54865225726339) / (1728000 * 29.08999169441869 :: real)"
    by simp
  also have "\<dots> \<le> 10.67 * (160000 * W) / (1728000 * V)"
    using V W by (intro frac_le) simp_all
  finally show "(0.4601433 :: real) \<le> 10.67 * (500 / 60000) powr 1.852 /
      (120 powr 1.852 * (50 / 1000) powr 4.87)"
    unfolding J .
  have "10.67 * (160000 * W) / (1728000 * V)
      \<le> 10.67 * (160000 * 13.54865225841699) / (1728000 * 29.08999169194295 :: real)"
    using V W by (intro frac_le) simp_all
  also have "\<dots> \<le> 0.4601434"
    by simp
  finally show "10.67 * (500 / 60000) powr 1.852 /
      (120 powr 1.852 * (50 / 1000) powr 4.87) \<le> (0.4601434 :: real)"
    unfolding J .
qed

subsection \<open>Bounds on pi from the Taylor polynomial of the sine\<close>

lemma suma_16_terminos:
  fixes f :: "nat \<Rightarrow> real"
  shows "(\<Sum>m<16. f m) = f 0 + f 1 + f 2 + f 3 + f 4 + f 5 + f 6 + f 7 + f 8 + f 9 + f 10
    + f 11 + f 12 + f 13 + f 14 + f 15"
  by (simp add: lessThan_nat_numeral lessThan_Suc)

lemma sin_coeff_valores:
  "sin_coeff 0 = 0" "sin_coeff 1 = 1" "sin_coeff 2 = 0" "sin_coeff 3 = - 1 / 6"
  "sin_coeff 4 = 0" "sin_coeff 5 = 1 / 120" "sin_coeff 6 = 0" "sin_coeff 7 = - 1 / 5040"
  "sin_coeff 8 = 0" "sin_coeff 9 = 1 / 362880" "sin_coeff 10 = 0"
  "sin_coeff 11 = - 1 / 39916800" "sin_coeff 12 = 0" "sin_coeff 13 = 1 / 6227020800"
  "sin_coeff 14 = 0" "sin_coeff 15 = - 1 / 1307674368000"
  by (simp_all add: sin_coeff_def fact_numeral)

lemma sin_taylor16:
  fixes x :: real
  shows "\<bar>sin x - (x - x ^ 3 / 6 + x ^ 5 / 120 - x ^ 7 / 5040 + x ^ 9 / 362880
      - x ^ 11 / 39916800 + x ^ 13 / 6227020800 - x ^ 15 / 1307674368000)\<bar>
    \<le> \<bar>x\<bar> ^ 16 / 20922789888000"
proof -
  have "(\<Sum>m<16. sin_coeff m * x ^ m) =
      x - x ^ 3 / 6 + x ^ 5 / 120 - x ^ 7 / 5040 + x ^ 9 / 362880
      - x ^ 11 / 39916800 + x ^ 13 / 6227020800 - x ^ 15 / 1307674368000"
    unfolding suma_16_terminos sin_coeff_valores by simp
  moreover have "(fact 16 :: real) = 20922789888000"
    by (simp add: fact_numeral)
  then have "inverse (fact 16) * \<bar>x\<bar> ^ 16 = \<bar>x\<bar> ^ 16 / 20922789888000"
    by (simp only: inverse_eq_divide times_divide_eq_left mult_1)
  ultimately show ?thesis
    using Maclaurin_sin_bound [of x 16] by (simp only:)
qed

lemma signo_por_aproximacion:
  fixes s p r :: real
  assumes "\<bar>s - p\<bar> \<le> r"
  shows "r < p \<Longrightarrow> 0 < s" and "p < - r \<Longrightarrow> s < 0"
  using assms by linarith+

lemma pi_cotas: "3.141 < pi" "pi < 3.148"
proof -
  have a: "0 < sin (3.141 :: real)"
    by (rule signo_por_aproximacion(1) [OF sin_taylor16]) (simp add: power_divide)
  have "\<not> pi \<le> 3.141"
  proof
    assume "pi \<le> 3.141"
    moreover have "3.141 < 2 * pi"
      using pi_ge_two by simp
    ultimately have "sin (3.141 :: real) \<le> 0"
      by (rule sin_le_zero)
    with a show False
      by simp
  qed
  then show "3.141 < pi"
    by simp
  have b: "sin (3.148 :: real) < 0"
    by (rule signo_por_aproximacion(2) [OF sin_taylor16]) (simp add: power_divide)
  have "\<not> 3.148 \<le> pi"
  proof
    assume "3.148 \<le> pi"
    moreover have "(0::real) \<le> 3.148"
      by simp
    ultimately have "0 \<le> sin (3.148 :: real)"
      by (intro sin_ge_zero)
    with b show False
      by simp
  qed
  then show "pi < 3.148"
    by simp
qed

subsection \<open>The reference scenario evaluated\<close>

lemma redondeo_entre:
  fixes x :: real
  assumes "of_int n - 1 / 2 \<le> x" and "x < of_int n + 1 / 2"
  shows "Math_round x = of_int n"
proof -
  have "\<lfloor>x + 1 / 2\<rfloor> = n"
    using assms by (simp add: floor_eq_iff)
  then show ?thesis
    by (simp add: Math_round_def)
qed

lemma redondeos_escenario1:
  fixes J :: real
  assumes "0.4601433 \<le> J" and "J \<le> 0.4601434"
  shows "Math_round (J * 100 / 10.197 * 1000) = 4513"
    and "Math_round (J * 10000) = 4601"
proof -
  show "Math_round (J * 100 / 10.197 * 1000) = 4513"
    using assms redondeo_entre [of 4513 "J * 100 / 10.197 * 1000"] by simp
  show "Math_round (J * 10000) = 4601"
    using assms redondeo_entre [of 4601 "J * 10000"] by simp
qed

lemma redondeo_velocidad:
  "Math_round (500 / 60000 / (pi * (50 / 1000 / 2) ^ 2) * 100) = 424"
proof -
  have "500 / 60000 / (pi * (50 / 1000 / 2) ^ 2) * 100 = 4000 / (3 * pi)"
    by (simp add: power2_eq_square)
  moreover have "423.5 \<le> 4000 / (3 * pi)" and "4000 / (3 * pi) < 424.5"
    using pi_cotas by (simp_all add: pos_le_divide_eq pos_divide_less_eq)
  ultimately show ?thesis
    using redondeo_entre [of 424 "500 / 60000 / (pi * (50 / 1000 / 2) ^ 2) * 100"]
    by simp
qed

lemma escenario1:
  "calcularPerdidaCarga 500 50 100 120 =
     Inr \<lparr>perdidaBar = 4.513, velocidadMs = 4.24, perdidaPorMetro = 0.4601\<rparr>"
proof -
  have "(0::real) \<le> 500" and "(0::real) < 50" and "(0::real) < 120"
    by simp_all
  note h = perdida_carga_valores [OF this, of 100]
  show ?thesis
    unfolding h redondeos_escenario1 [OF perdida_por_metro_escenario1] redondeo_velocidad
    by simp
qed

text \<open>
  C1, as amended. With a flow of 500 L/min, an inner diameter of 50 mm, a length of 100 m and
  C = 120 the calculator returns a pressure drop of 4.513 bar, a velocity of 4.24 m/s and a
  loss of 0.4601 per metre.
\<close>

theorem perdida_escenario1:
  "calcularPerdidaCarga 500 50 100 120 =
     Inr \<lparr>perdidaBar = 4.513, velocidadMs = 4.24, perdidaPorMetro = 0.4601\<rparr>"
  by (rule escenario1)

text \<open>
  C1 as stated fails: each returned value is far from the figure of the scenario (0.313,
  0.71 and 0.0031).
\<close>

theorem perdida_escenario1_counterexample:
  "\<exists>r. calcularPerdidaCarga 500 50 100 120 = Inr r \<and>
     \<bar>perdidaBar r - 0.313\<bar> > 4 \<and> \<bar>velocidadMs r - 0.71\<bar> > 3 \<and>
     \<bar>perdidaPorMetro r - 0.0031\<bar> > 0.4"
  by (simp add: escenario1)

subsection \<open>Friction loss: monotonicity\<close>

lemma perdida_por_metro_monotona:
  fixes q1 q2 d1 d2 c1 c2 :: real
  assumes "0 \<le> q1" and "q1 \<le> q2" and "0 < d2" and "d2 \<le> d1" and "0 < c2" and "c2 \<le> c1"
  shows "10.67 * q1 powr 1.852 / (c1 powr 1.852 * d1 powr 4.87)
       \<le> 10.67 * q2 powr 1.852 / (c2 powr 1.852 * d2 powr 4.87)"
proof (rule frac_le)
  show "0 \<le> 10.67 * q2 powr 1.852"
    by simp
  show "10.67 * q1 powr 1.852 \<le> 10.67 * q2 powr 1.852"
    using assms(1,2) by (simp add: powr_mono2)
  show "0 < c2 powr 1.852 * d2 powr 4.87"
    using assms(3,5) by simp
  have "c2 powr 1.852 \<le> c1 powr 1.852"
    using assms(5,6) by (intro powr_mono2) simp_all
  moreover have "d2 powr 4.87 \<le> d1 powr 4.87"
    using assms(3,4) by (intro powr_mono2) simp_all
  ultimately show "c2 powr 1.852 * d2 powr 4.87 \<le> c1 powr 1.852 * d1 powr 4.87"
    by (intro mult_mono) simp_all
qed

text \<open>
  C8. Among valid inputs (a flow and a length that are not negative, a positive diameter and
  coefficient), a flow and a length that are not smaller together with a diameter and a
  coefficient that are not larger give a pressure drop that is not smaller. Taking three of
  the four arguments equal gives the monotonicity in each argument alone.
\<close>

theorem perdida_monotona:
  assumes "0 \<le> q1" and "q1 \<le> q2" and "0 < d2" and "d2 \<le> d1"
    and "0 \<le> l1" and "l1 \<le> l2" and "0 < c2" and "c2 \<le> c1"
  shows "\<exists>r1 r2. calcularPerdidaCarga q1 d1 l1 c1 = Inr r1 \<and>
    calcularPerdidaCarga q2 d2 l2 c2 = Inr r2 \<and> perdidaBar r1 \<le> perdidaBar r2"
proof -
  let ?J1 = "10.67 * (q1 / 60000) powr 1.852 / (c1 powr 1.852 * (d1 / 1000) powr 4.87)"
  let ?J2 = "10.67 * (q2 / 60000) powr 1.852 / (c2 powr 1.852 * (d2 / 1000) powr 4.87)"
  have q: "0 \<le> q2" and d: "0 < d1" and c: "0 < c1"
    using assms by simp_all
  have "?J1 \<le> ?J2"
    using assms by (intro perdida_por_metro_monotona) (simp_all add: divide_right_mono)
  moreover have "0 \<le> ?J1"
    by simp
  ultimately have "?J1 * l1 \<le> ?J2 * l2"
    using assms(5,6) by (intro mult_mono) simp_all
  then have "?J1 * l1 / 10.197 \<le> ?J2 * l2 / 10.197"
    by (rule divide_right_mono) simp
  then have "?J1 * l1 / 10.197 * 1000 \<le> ?J2 * l2 / 10.197 * 1000"
    by (rule mult_right_mono) simp
  then have "Math_round (?J1 * l1 / 10.197 * 1000) \<le> Math_round (?J2 * l2 / 10.197 * 1000)"
    by (rule Math_round_mono)
  then show ?thesis
    unfolding perdida_carga_valores [OF assms(1) d c]
      perdida_carga_valores [OF q assms(3,7)]
    by simp
qed

theorem perdida_monotona_witness:
  "\<exists>r1 r2. calcularPerdidaCarga 100 50 10 120 = Inr r1 \<and>
    calcularPerdidaCarga 500 40 100 100 = Inr r2 \<and> perdidaBar r1 \<le> perdidaBar r2"
proof -
  have "(0::real) \<le> 100" "(100::real) \<le> 500" "(0::real) < 40" "(40::real) \<le> 50"
    "(0::real) \<le> 10" "(10::real) \<le> 100" "(0::real) < 100" "(100::real) \<le> 120"
    by simp_all
  then show ?thesis
    by (rule perdida_monotona)
qed

section \<open>Rounding to a double\<close>

text \<open>
  The rounding \<open>doble\<close> moves a real by at most one part in \<open>2 ^ 53\<close>, keeps the sign, and
  leaves every integer up to \<open>2 ^ 53\<close> and every dyadic fraction with such a numerator
  where it is. Its value at a given real is found from an interval that holds the real.
\<close>

lemma redondeoPar_cerca: "\<bar>of_int (redondeoPar y) - y\<bar> \<le> 1 / 2"
  unfolding redondeoPar_def Let_def by (auto; linarith)

lemma redondeoPar_entero [simp]: "redondeoPar (of_int n) = n"
  by (simp add: redondeoPar_def)

lemma redondeoPar_entre:
  assumes "of_int m - 1 / 2 < y" and "y < of_int m + 1 / 2"
  shows "redondeoPar y = m"
proof -
  have "\<bar>of_int (redondeoPar y) - y\<bar> \<le> 1 / 2"
    by (rule redondeoPar_cerca)
  then have "\<bar>(of_int (redondeoPar y) :: real) - of_int m\<bar> < 1"
    using assms by linarith
  then have "\<bar>redondeoPar y - m\<bar> < 1"
    by (metis of_int_abs of_int_diff of_int_less_1_iff)
  then show ?thesis
    by simp
qed

lemma exponente_cotas:
  assumes "x \<noteq> 0"
  shows "2 powr of_int \<lfloor>log 2 \<bar>x\<bar>\<rfloor> \<le> \<bar>x\<bar>"
    and "\<bar>x\<bar> < 2 powr (of_int \<lfloor>log 2 \<bar>x\<bar>\<rfloor> + 1)"
  using assms floor_log_eq_powr_iff [of "\<bar>x\<bar>" 2 "\<lfloor>log 2 \<bar>x\<bar>\<rfloor>"] by simp_all

lemma doble_error:
  "\<bar>doble x - x\<bar> \<le> \<bar>x\<bar> / 2 ^ 53"
proof (cases "x = 0")
  case True
  then show ?thesis
    by (simp add: doble_def)
next
  case False
  define e where "e = \<lfloor>log 2 \<bar>x\<bar>\<rfloor>"
  define q :: real where "q = 2 powr of_int (e - 52)"
  have q0: "0 < q"
    by (simp add: q_def)
  have "q * 2 ^ 52 = 2 powr of_int e"
    unfolding q_def by (simp add: powr_diff)
  also have "\<dots> \<le> \<bar>x\<bar>"
    unfolding e_def by (rule exponente_cotas(1) [OF False])
  finally have qx: "q * 2 ^ 52 \<le> \<bar>x\<bar>" .
  have "doble x - x = (of_int (redondeoPar (x / q)) - x / q) * q"
    using False q0 by (simp add: doble_def Let_def q_def e_def algebra_simps)
  then have "\<bar>doble x - x\<bar> = \<bar>of_int (redondeoPar (x / q)) - x / q\<bar> * q"
    using q0 by (simp add: abs_mult)
  also have "\<dots> \<le> 1 / 2 * q"
    using q0 redondeoPar_cerca [of "x / q"] by (intro mult_right_mono) simp_all
  also have "\<dots> \<le> \<bar>x\<bar> / 2 ^ 53"
    using qx by simp
  finally show ?thesis .
qed

lemma doble_en_binada:
  assumes "q = 2 powr of_int k"
    and "q * 2 ^ 52 \<le> \<bar>x\<bar>" and "\<bar>x\<bar> < q * 2 ^ 53"
  shows "doble x = of_int (redondeoPar (x / q)) * q"
proof -
  have q0: "0 < q"
    by (simp add: assms(1))
  then have x0: "x \<noteq> 0"
    using assms(2) by auto
  have "0 < \<bar>x\<bar>"
    using x0 by simp
  moreover have "2 powr of_int (k + 52) \<le> \<bar>x\<bar>"
    using assms(2) by (simp add: assms(1) powr_add)
  moreover have "\<bar>x\<bar> < 2 powr (of_int (k + 52) + 1)"
    using assms(3) by (simp add: assms(1) powr_add)
  ultimately have "\<lfloor>log 2 \<bar>x\<bar>\<rfloor> = k + 52"
    using floor_log_eq_powr_iff [of "\<bar>x\<bar>" 2 "k + 52"] by simp
  then show ?thesis
    using x0 by (simp add: doble_def Let_def assms(1))
qed

lemma doble_evalua:
  assumes "q = 2 powr of_int k"
    and "q * 2 ^ 52 \<le> \<bar>x\<bar>" and "\<bar>x\<bar> < q * 2 ^ 53"
    and "of_int m - 1 / 2 < x / q" and "x / q < of_int m + 1 / 2"
  shows "doble x = of_int m * q"
  using doble_en_binada [OF assms(1-3)] redondeoPar_entre [OF assms(4,5)] by simp

lemma doble_representable:
  fixes m k :: int
  assumes "\<bar>m\<bar> < 2 ^ 53"
  shows "doble (of_int m * 2 powr of_int k) = of_int m * 2 powr of_int k"
proof (cases "m = 0")
  case True
  then show ?thesis
    by (simp add: doble_def)
next
  case False
  define x :: real where "x = of_int m * 2 powr of_int k"
  define e where "e = \<lfloor>log 2 \<bar>x\<bar>\<rfloor>"
  define q :: real where "q = 2 powr of_int (e - 52)"
  have x0: "x \<noteq> 0"
    using False by (simp add: x_def)
  have ax: "\<bar>x\<bar> = of_int \<bar>m\<bar> * 2 powr of_int k"
    by (simp add: x_def abs_mult)
  have "(of_int \<bar>m\<bar> :: real) < 2 ^ 53"
    using assms by (metis of_int_less_iff of_int_numeral of_int_power)
  then have "\<bar>x\<bar> < 2 ^ 53 * 2 powr of_int k"
    unfolding ax by (intro mult_strict_right_mono) simp_all
  also have "\<dots> = 2 powr of_int (k + 53)"
    by (simp add: powr_add)
  finally have "2 powr of_int e < (2::real) powr of_int (k + 53)"
    using exponente_cotas(1) [OF x0] unfolding e_def by linarith
  then have "e < k + 53"
    by simp
  then have n: "0 \<le> k + 52 - e"
    by simp
  have "x / q = of_int m * (2 powr of_int k / 2 powr of_int (e - 52))"
    by (simp add: x_def q_def)
  also have "2 powr of_int k / 2 powr of_int (e - 52) = (2::real) powr of_int (k + 52 - e)"
    by (simp add: powr_diff [symmetric] algebra_simps)
  also have "\<dots> = 2 ^ nat (k + 52 - e)"
    using n by (subst powr_real_of_int) simp_all
  finally have "x / q = of_int (m * 2 ^ nat (k + 52 - e))"
    by simp
  then have "of_int (redondeoPar (x / q)) = x / q"
    by (simp only: redondeoPar_entero)
  then have "doble x = x / q * q"
    using x0 by (simp add: doble_def Let_def q_def e_def)
  then show ?thesis
    unfolding x_def [symmetric] by (simp add: q_def)
qed

lemma doble_entero:
  fixes n :: int
  assumes "\<bar>n\<bar> \<le> 2 ^ 53"
  shows "doble (of_int n) = of_int n"
proof (cases "\<bar>n\<bar> < 2 ^ 53")
  case True
  then show ?thesis
    using doble_representable [of n 0] by simp
next
  case False
  with assms have "n = 2 ^ 53 \<or> n = - (2 ^ 53)"
    by linarith
  then have "(of_int n :: real) = of_int 1 * 2 powr of_int 53 \<or>
      (of_int n :: real) = of_int (- 1) * 2 powr of_int 53"
    by auto
  then show ?thesis
    using doble_representable [of 1 53] doble_representable [of "- 1" 53]
    by auto
qed

lemma doble_cotas:
  assumes "0 \<le> x"
  shows "x * (1 - 1 / 2 ^ 53) \<le> doble x"
    and "doble x \<le> x * (1 + 1 / 2 ^ 53)"
proof -
  have "\<bar>doble x - x\<bar> \<le> x / 2 ^ 53"
    using doble_error [of x] assms by simp
  then have "x - x / 2 ^ 53 \<le> doble x" and "doble x \<le> x + x / 2 ^ 53"
    by linarith+
  then show "x * (1 - 1 / 2 ^ 53) \<le> doble x"
    and "doble x \<le> x * (1 + 1 / 2 ^ 53)"
    by (simp_all add: algebra_simps)
qed

lemma doble_cotas_neg:
  assumes "x \<le> 0"
  shows "x * (1 + 1 / 2 ^ 53) \<le> doble x"
    and "doble x \<le> x * (1 - 1 / 2 ^ 53)"
proof -
  have "\<bar>doble x - x\<bar> \<le> - x / 2 ^ 53"
    using doble_error [of x] assms by simp
  then have "x + x / 2 ^ 53 \<le> doble x" and "doble x \<le> x - x / 2 ^ 53"
    by linarith+
  then show "x * (1 + 1 / 2 ^ 53) \<le> doble x"
    and "doble x \<le> x * (1 - 1 / 2 ^ 53)"
    by (simp_all add: algebra_simps)
qed

lemma doble_positivo:
  assumes "0 < x"
  shows "0 < doble x"
proof -
  have "0 < x * (1 - 1 / 2 ^ 53)"
    using assms by simp
  also have "\<dots> \<le> doble x"
    using assms by (intro doble_cotas(1)) simp
  finally show ?thesis .
qed
lemma doble_cero [simp]: "doble 0 = 0"
  by (simp add: doble_def)

lemma doble_numeral:
  assumes "(numeral n :: int) \<le> 2 ^ 53"
  shows "doble (numeral n) = numeral n" and "doble (- numeral n) = - numeral n"
  using doble_entero [of "numeral n"] doble_entero [of "- numeral n"] assms by simp_all

lemma doble_uno [simp]: "doble 1 = 1"
  using doble_entero [of 1] by simp

lemma doble_diadico:
  fixes m :: int
  assumes "\<bar>m\<bar> < 2 ^ 53"
  shows "doble (of_int m / 2 ^ n) = of_int m / 2 ^ n"
proof -
  have "(2::real) powr of_int (- int n) = 1 / 2 ^ n"
    by (simp add: powr_minus_divide powr_realpow)
  then show ?thesis
    using doble_representable [OF assms, of "- int n"] by simp
qed

lemma doble_inf:
  assumes "a \<le> x" and "0 \<le> a" and "a' \<le> a * (1 - 1 / 2 ^ 53)"
  shows "a' \<le> doble x"
proof -
  have x: "0 \<le> x"
    using assms(1,2) by simp
  have "a * (1 - 1 / 2 ^ 53) \<le> x * (1 - 1 / 2 ^ 53)"
    using assms(1) by (intro mult_right_mono) simp_all
  with assms(3) doble_cotas(1) [OF x] show ?thesis
    by linarith
qed

lemma doble_sup:
  assumes "x \<le> b" and "0 \<le> x" and "b * (1 + 1 / 2 ^ 53) \<le> b'"
  shows "doble x \<le> b'"
proof -
  have "x * (1 + 1 / 2 ^ 53) \<le> b * (1 + 1 / 2 ^ 53)"
    using assms(1) by (intro mult_right_mono) simp_all
  with assms(3) doble_cotas(2) [OF assms(2)] show ?thesis
    by linarith
qed

lemma doble_inf_neg:
  assumes "a \<le> x" and "x \<le> 0" and "a' \<le> a * (1 + 1 / 2 ^ 53)"
  shows "a' \<le> doble x"
proof -
  have "a * (1 + 1 / 2 ^ 53) \<le> x * (1 + 1 / 2 ^ 53)"
    using assms(1) by (intro mult_right_mono) simp_all
  with assms(3) doble_cotas_neg(1) [OF assms(2)] show ?thesis
    by linarith
qed

lemma doble_sup_neg:
  assumes "x \<le> b" and "b \<le> 0" and "b * (1 - 1 / 2 ^ 53) \<le> b'"
  shows "doble x \<le> b'"
proof -
  have x: "x \<le> 0"
    using assms(1,2) by simp
  have "x * (1 - 1 / 2 ^ 53) \<le> b * (1 - 1 / 2 ^ 53)"
    using assms(1) by (intro mult_right_mono) simp_all
  with assms(3) doble_cotas_neg(2) [OF x] show ?thesis
    by linarith
qed

lemma doble_no_negativo:
  assumes "0 \<le> x"
  shows "0 \<le> doble x"
proof -
  have "0 \<le> x * (1 - 1 / 2 ^ 53)"
    using assms by (intro mult_nonneg_nonneg) simp_all
  then show ?thesis
    using doble_cotas(1) [OF assms] by linarith
qed


lemma doble_entre:
  assumes "a \<le> x" and "x \<le> b" and "0 \<le> a"
    and "a' \<le> a * (1 - 1 / 2 ^ 53)" and "b * (1 + 1 / 2 ^ 53) \<le> b'"
  shows "a' \<le> doble x \<and> doble x \<le> b'"
proof -
  have "0 \<le> x"
    using assms(1,3) by simp
  then show ?thesis
    using doble_inf [OF assms(1,3,4)] doble_sup [OF assms(2) _ assms(5)] by simp
qed

lemma doble_evalua_fraccion:
  assumes "2 ^ 52 \<le> \<bar>x\<bar> * 2 ^ n" and "\<bar>x\<bar> * 2 ^ n < 2 ^ 53"
    and "of_int m - 1 / 2 < x * 2 ^ n" and "x * 2 ^ n < of_int m + 1 / 2"
  shows "doble x = of_int m / 2 ^ n"
proof -
  define q :: real where "q = 1 / 2 ^ n"
  have q: "q = 2 powr of_int (- int n)"
    by (simp add: q_def powr_minus_divide powr_realpow)
  have d: "x / q = x * 2 ^ n"
    by (simp add: q_def)
  have "q * 2 ^ 52 \<le> \<bar>x\<bar>" and "\<bar>x\<bar> < q * 2 ^ 53"
    using assms(1,2) by (simp_all add: q_def field_simps)
  moreover have "of_int m - 1 / 2 < x / q" and "x / q < of_int m + 1 / 2"
    using assms(3,4) by (simp_all only: d)
  ultimately have "doble x = of_int m * q"
    by (rule doble_evalua [OF q])
  then show ?thesis
    by (simp add: q_def)
qed

lemma redondeoPar_empate:
  "redondeoPar (of_int k + 1 / 2) = (if even k then k else k + 1)"
proof -
  have "\<lfloor>of_int k + (1 / 2 :: real)\<rfloor> = k"
    by (simp add: floor_eq_iff)
  then show ?thesis
    by (simp add: redondeoPar_def Let_def)
qed

lemma doble_empate_fraccion:
  assumes "2 ^ 52 \<le> \<bar>x\<bar> * 2 ^ n" and "\<bar>x\<bar> * 2 ^ n < 2 ^ 53"
    and "x * 2 ^ n = of_int k + 1 / 2"
  shows "doble x = of_int (if even k then k else k + 1) / 2 ^ n"
proof -
  define q :: real where "q = 1 / 2 ^ n"
  have q: "q = 2 powr of_int (- int n)"
    by (simp add: q_def powr_minus_divide powr_realpow)
  have d: "x / q = of_int k + 1 / 2"
    using assms(3) by (simp add: q_def)
  have "q * 2 ^ 52 \<le> \<bar>x\<bar>" and "\<bar>x\<bar> < q * 2 ^ 53"
    using assms(1,2) by (simp_all add: q_def field_simps)
  then have "doble x = of_int (redondeoPar (x / q)) * q"
    by (rule doble_en_binada [OF q])
  then show ?thesis
    unfolding d redondeoPar_empate by (simp add: q_def)
qed

section \<open>The detector layout planner on doubles\<close>

subsection \<open>The accepted path\<close>

text \<open>
  What the planner returns once both rejections are passed, field by field. The counts may
  be zero.
\<close>

lemma planificacion_aceptada_doble:
  assumes "0 \<le> i" and "i < int (length tabla)" and "d = tabla ! nat i"
    and "alturaM \<le> alturaMaxM d"
    and "obtenerRangoAltura alturaM < length (coberturaMaxM2 d)"
    and "c = coberturaMaxM2 d ! obtenerRangoAltura alturaM" and "0 < c"
    and "s = doble (sqrt c)"
    and "nl = \<lceil>doble (largoM / s)\<rceil>" and "na = \<lceil>doble (anchoM / s)\<rceil>"
  shows "calcularEspaciamientoDetectoresDoble tabla i alturaM largoM anchoM =
    Inr \<lparr>areaM2_d = doble (Math_round (doble (doble (largoM * anchoM) * 100)) / 100),
         numDetectoresMinimo_d = of_int \<lceil>doble (doble (largoM * anchoM) / c)\<rceil>,
         coberturaMaximaM2_d = c,
         espaciamientoMaximoM_d = doble (Math_round (doble (s * 100)) / 100),
         numDetectoresReal_d = doble (of_int nl * of_int na),
         detectoresLargo_d = of_int nl,
         detectoresAncho_d = of_int na,
         espaciamientoLargoM_d = redondear2 (cociente largoM (of_int nl)),
         espaciamientoAnchoM_d = redondear2 (cociente anchoM (of_int na)),
         distanciaParedLargoM_d = redondear2 (mitad (cociente largoM (of_int nl))),
         distanciaParedAnchoM_d = redondear2 (mitad (cociente anchoM (of_int na))),
         valido_d = True,
         mensaje_d = '''',
         advertencias_d =
           (if mayorQue (cociente largoM (of_int nl)) (doble (s * doble 1.05)) then
              [''Espaciamiento en largo ('' @ toFixed2N (cociente largoM (of_int nl)) @
               ''m) supera el maximo ('' @ toFixed2 s @ ''m)'']
            else []) @
           (if mayorQue (cociente anchoM (of_int na)) (doble (s * doble 1.05)) then
              [''Espaciamiento en ancho ('' @ toFixed2N (cociente anchoM (of_int na)) @
               ''m) supera el maximo ('' @ toFixed2 s @ ''m)'']
            else [])\<rparr>"
proof -
  have "\<not> alturaM > alturaMaxM (tabla ! nat i)"
    and "\<not> length (coberturaMaxM2 (tabla ! nat i)) \<le> obtenerRangoAltura alturaM"
    and "coberturaMaxM2 (tabla ! nat i) ! obtenerRangoAltura alturaM = c"
    using assms(3-6) by simp_all
  moreover have "c \<noteq> 0" and "\<not> c < 0"
    using assms(7) by simp_all
  moreover have "\<lceil>doble (largoM / doble (sqrt c))\<rceil> = nl"
    and "\<lceil>doble (anchoM / doble (sqrt c))\<rceil> = na"
    using assms(8-10) by simp_all
  ultimately show ?thesis
    using assms(1,2)
    by (simp add: calcularEspaciamientoDetectoresDoble_def Let_def Math_ceil_def assms(8))
qed

subsection \<open>The thermal detector in a room of 10 m by 10 m\<close>

text \<open>
  The double nearest to the square root of 30 lies between 5.4769 and 5.4781, which fixes
  the counts, the threshold of the warnings and the two decimals that are printed.
\<close>

lemma sqrt30_finas: "5.477 \<le> sqrt 30" "sqrt 30 \<le> 5.478"
proof -
  show "5.477 \<le> sqrt 30"
    by (rule real_le_rsqrt) (simp add: power2_eq_square)
  show "sqrt 30 \<le> 5.478"
    by (rule real_le_lsqrt) (simp_all add: power2_eq_square)
qed

lemma doble_sqrt30: "5.4769 \<le> doble (sqrt 30)" "doble (sqrt 30) \<le> 5.4781"
proof -
  show "5.4769 \<le> doble (sqrt 30)"
    by (rule doble_inf [OF sqrt30_finas(1)]) simp_all
  show "doble (sqrt 30) \<le> 5.4781"
    by (rule doble_sup [OF sqrt30_finas(2)]) simp_all
qed

lemma doble_105: "1.04 \<le> doble (21 / 20)" "doble (21 / 20) \<le> 1.06"
proof -
  show "1.04 \<le> doble (21 / 20)"
    by (rule doble_inf [where a = "21 / 20"]) simp_all
  show "doble (21 / 20) \<le> 1.06"
    by (rule doble_sup [where b = "21 / 20"]) simp_all
qed

lemma umbral_sqrt30:
  "5.6 \<le> doble (doble (sqrt 30) * doble (21 / 20))"
  "doble (doble (sqrt 30) * doble (21 / 20)) \<le> 5.9"
proof -
  have a: "5.4769 * 1.04 \<le> doble (sqrt 30) * doble (21 / 20)"
    using doble_sqrt30(1) doble_105(1) by (intro mult_mono) simp_all
  have b: "doble (sqrt 30) * doble (21 / 20) \<le> 5.4781 * 1.06"
    using doble_sqrt30 doble_105 by (intro mult_mono) simp_all
  show "5.6 \<le> doble (doble (sqrt 30) * doble (21 / 20))"
    by (rule doble_inf [OF a]) simp_all
  have "0 \<le> doble (sqrt 30) * doble (21 / 20)"
    using a by simp
  then show "doble (doble (sqrt 30) * doble (21 / 20)) \<le> 5.9"
    by (rule doble_sup [OF b]) simp_all
qed

lemma cociente_10_sqrt30: "1.82 \<le> 10 / doble (sqrt 30)" "10 / doble (sqrt 30) \<le> 1.83"
proof -
  have s: "0 < doble (sqrt 30)"
    using doble_sqrt30(1) by simp
  show "1.82 \<le> 10 / doble (sqrt 30)"
    using doble_sqrt30(2) s by (simp add: pos_le_divide_eq)
  show "10 / doble (sqrt 30) \<le> 1.83"
    using doble_sqrt30(1) s by (simp add: pos_divide_le_eq)
qed

lemma techo_10_sqrt30_doble: "\<lceil>doble (10 / doble (sqrt 30))\<rceil> = 2"
proof -
  have "1.81 \<le> doble (10 / doble (sqrt 30))"
    by (rule doble_inf [OF cociente_10_sqrt30(1)]) simp_all
  moreover have "0 \<le> 10 / doble (sqrt 30)"
    using doble_sqrt30(1) by simp
  then have "doble (10 / doble (sqrt 30)) \<le> 1.84"
    by (rule doble_sup [OF cociente_10_sqrt30(2)]) simp
  ultimately show ?thesis
    by (simp add: ceiling_eq_iff)
qed

lemma techo_menos10_sqrt30_doble: "\<lceil>doble (- (10 / doble (sqrt 30)))\<rceil> = - 1"
proof -
  have a: "- 1.83 \<le> - (10 / doble (sqrt 30))" and b: "- (10 / doble (sqrt 30)) \<le> - 1.82"
    using cociente_10_sqrt30 by simp_all
  have n: "- (10 / doble (sqrt 30)) \<le> 0"
    using doble_sqrt30(1) by simp
  have "- 1.84 \<le> doble (- (10 / doble (sqrt 30)))"
    by (rule doble_inf_neg [OF a n]) simp
  moreover have "doble (- (10 / doble (sqrt 30))) \<le> - 1.81"
    by (rule doble_sup_neg [OF b]) simp_all
  ultimately show ?thesis
    by (simp add: ceiling_eq_iff)
qed

lemma techo_10_tercios_doble: "\<lceil>doble (10 / 3)\<rceil> = 4" "\<lceil>doble (- (10 / 3))\<rceil> = - 3"
proof -
  have "3.3 \<le> doble (10 / 3)"
    by (rule doble_inf [where a = "10 / 3"]) simp_all
  moreover have "doble (10 / 3) \<le> 3.4"
    by (rule doble_sup [where b = "10 / 3"]) simp_all
  ultimately show "\<lceil>doble (10 / 3)\<rceil> = 4"
    by (simp add: ceiling_eq_iff)
  have "- 3.4 \<le> doble (- (10 / 3))"
    by (rule doble_inf_neg [where a = "- (10 / 3)"]) simp_all
  moreover have "doble (- (10 / 3)) \<le> - 3.3"
    by (rule doble_sup_neg [where b = "- (10 / 3)"]) simp_all
  ultimately show "\<lceil>doble (- (10 / 3))\<rceil> = - 3"
    by (simp add: ceiling_eq_iff)
qed

lemma redondeo_sqrt30_doble: "Math_round (doble (doble (sqrt 30) * 100)) = 548"
proof -
  have a: "547.69 \<le> doble (sqrt 30) * 100" and b: "doble (sqrt 30) * 100 \<le> 547.81"
    using doble_sqrt30 by simp_all
  have "547.6 \<le> doble (doble (sqrt 30) * 100)"
    by (rule doble_inf [OF a]) simp_all
  moreover have "0 \<le> doble (sqrt 30) * 100"
    using a by simp
  then have "doble (doble (sqrt 30) * 100) \<le> 547.9"
    by (rule doble_sup [OF b]) simp
  ultimately show ?thesis
    using redondeo_entre [of 548 "doble (doble (sqrt 30) * 100)"] by simp
qed

lemma toFixed2_sqrt30_doble: "toFixed2 (doble (sqrt 30)) = ''5.48''"
proof -
  have "\<lfloor>\<bar>doble (sqrt 30)\<bar> * 100 + 1 / 2\<rfloor> = 548"
    using doble_sqrt30 by (simp add: floor_eq_iff)
  moreover have "\<not> doble (sqrt 30) < 0"
    using doble_sqrt30(1) by simp
  ultimately show ?thesis
    by (simp add: toFixed2_def Let_def digitos.simps digito_def)
qed

lemma doble_mitades: "doble (5 / 2) = 5 / 2"
  using doble_diadico [of 5 1] by simp

lemma Math_round_entero: "Math_round (of_int n) = of_int n"
proof -
  have "\<lfloor>of_int n + (1 / 2 :: real)\<rfloor> = n"
    by (simp add: floor_eq_iff)
  then show ?thesis
    by (simp add: Math_round_def)
qed

lemma Math_round_enteros:
  "Math_round (numeral n) = numeral n" "Math_round (- numeral n) = - numeral n"
  using Math_round_entero [of "numeral n"] Math_round_entero [of "- numeral n"] by simp_all

lemma escenario3_doble:
  "calcularEspaciamientoDetectoresDoble tiposDetectores 2 3 10 10 =
    Inr \<lparr>areaM2_d = 100, numDetectoresMinimo_d = 4, coberturaMaximaM2_d = 30,
         espaciamientoMaximoM_d = doble 5.48, numDetectoresReal_d = 4, detectoresLargo_d = 2,
         detectoresAncho_d = 2, espaciamientoLargoM_d = Finito 5,
         espaciamientoAnchoM_d = Finito 5, distanciaParedLargoM_d = Finito 2.5,
         distanciaParedAnchoM_d = Finito 2.5, valido_d = True,
         mensaje_d = [], advertencias_d = []\<rparr>"
proof -
  have n: "2 = \<lceil>doble (10 / doble (sqrt 30))\<rceil>"
    by (simp add: techo_10_sqrt30_doble)
  note h = planificacion_aceptada_doble [where i = 2 and tabla = tiposDetectores
        and d = "tiposDetectores ! nat 2" and alturaM = 3 and c = 30
        and s = "doble (sqrt 30)" and nl = 2 and na = 2
        and largoM = 10 and anchoM = 10, OF detector_2_premisas(1,2) refl
          detector_2_premisas(3,4,5,6) refl n n]
  have u: "\<not> 5 > doble (doble (sqrt 30) * doble (21 / 20))"
    using umbral_sqrt30(1) by simp
  show ?thesis
    using u by (subst h)
      (simp add: cociente_def doble_numeral doble_mitades Math_round_enteros
        techo_10_tercios_doble redondeo_sqrt30_doble)
qed

subsection \<open>The optical smoke detector under 3 m\<close>

text \<open>
  The coverage is 80 and the maximum spacing the double nearest to its square root,
  \<^verbatim>\<open>8.94427190999916\<close>. A room 171.5 m long gets 20 detectors along its length; the
  quotient \<^verbatim>\<open>171.5 / 20\<close> is the double just below 8.575, and the spacing returned is
  \<^verbatim>\<open>8.57\<close>.
\<close>

lemma detector_0_premisas:
  "(0::int) \<le> 0" "0 < int (length tiposDetectores)"
  "3 \<le> alturaMaxM (tiposDetectores ! nat 0)"
  "obtenerRangoAltura 3 < length (coberturaMaxM2 (tiposDetectores ! nat 0))"
  "80 = coberturaMaxM2 (tiposDetectores ! nat 0) ! obtenerRangoAltura 3"
  "(0::real) < 80"
  by (simp_all add: tiposDetectores_def obtenerRangoAltura_def)

lemma doble_sqrt80: "doble (sqrt 80) = 5035177455121576 / 2 ^ 49"
proof -
  have a: "10070354910243151 / 2 ^ 50 < sqrt 80"
    by (rule real_less_rsqrt) (simp add: power2_eq_square)
  have b: "sqrt 80 < 10070354910243153 / 2 ^ 50"
    by (rule real_less_lsqrt) (simp_all add: power2_eq_square)
  have p: "0 \<le> sqrt 80"
    by simp
  have "2 ^ 52 \<le> \<bar>sqrt 80\<bar> * 2 ^ 49" and "\<bar>sqrt 80\<bar> * 2 ^ 49 < 2 ^ 53"
    and "of_int 5035177455121576 - 1 / 2 < sqrt 80 * 2 ^ 49"
    and "sqrt 80 * 2 ^ 49 < of_int 5035177455121576 + 1 / 2"
    using a b unfolding abs_of_nonneg [OF p] by simp_all
  then show ?thesis
    using doble_evalua_fraccion [where n = 49 and x = "sqrt 80" and m = 5035177455121576]
    by simp
qed

lemma techo_1715_sqrt80: "20 = \<lceil>doble (343 / 2 / doble (sqrt 80))\<rceil>"
proof -
  have "doble (343 / 2 / (5035177455121576 / 2 ^ 49)) = 5397080834708439 / 2 ^ 48"
    using doble_evalua_fraccion [where n = 48 and m = 5397080834708439
        and x = "343 / 2 / (5035177455121576 / 2 ^ 49)"]
    by simp
  then show ?thesis
    unfolding doble_sqrt80 by (simp add: ceiling_eq_iff)
qed

lemma espaciamiento_1715_entre_20:
  "redondear2 (cociente (343 / 2) 20) = Finito (doble (857 / 100))"
proof -
  have a: "doble (343 / 40) = 4827295850587750 / 2 ^ 49"
    using doble_evalua_fraccion [where n = 49 and m = 4827295850587750 and x = "343 / 40"]
    by simp
  have b: "doble (4827295850587750 / 2 ^ 49 * 100) = 7542649766543359 / 2 ^ 43"
    using doble_evalua_fraccion [where n = 43 and m = 7542649766543359
        and x = "4827295850587750 / 2 ^ 49 * 100"]
    by simp
  have c: "Math_round (7542649766543359 / 2 ^ 43) = 857"
    using redondeo_entre [of 857 "7542649766543359 / 2 ^ 43"] by simp
  have "cociente (343 / 2) 20 = Finito (doble (343 / 40))"
    by (simp add: cociente_def)
  then show ?thesis
    unfolding a by (simp only: redondear2.simps b c)
qed

subsection \<open>The grid\<close>

text \<open>
  C3. For every accepted layout (a ceiling within the detector's limit and a positive
  coverage of the band), on doubles: the maximum spacing \<open>s\<close> is the double nearest to the
  square root of the coverage, and it is returned rounded to two decimals; the count along
  each axis is the ceiling of the side over \<open>s\<close>; the total is the product of the two
  counts, which is exact as long as it does not exceed \<open>2 ^ 53\<close>; and the spacing returned
  for an axis is the side over its count, rounded to two decimals.
\<close>

theorem rejilla_real:
  assumes "0 \<le> i" and "i < int (length tabla)" and "d = tabla ! nat i"
    and "alturaM \<le> alturaMaxM d"
    and "obtenerRangoAltura alturaM < length (coberturaMaxM2 d)"
    and "c = coberturaMaxM2 d ! obtenerRangoAltura alturaM" and "0 < c"
    and "s = doble (sqrt c)"
    and "nl = \<lceil>doble (largoM / s)\<rceil>" and "na = \<lceil>doble (anchoM / s)\<rceil>"
  shows "\<exists>r. calcularEspaciamientoDetectoresDoble tabla i alturaM largoM anchoM = Inr r \<and>
    valido_d r \<and> mensaje_d r = [] \<and>
    coberturaMaximaM2_d r = c \<and>
    \<bar>s - sqrt c\<bar> \<le> sqrt c / 2 ^ 53 \<and>
    espaciamientoMaximoM_d r = doble (Math_round (doble (s * 100)) / 100) \<and>
    detectoresLargo_d r = of_int nl \<and>
    detectoresAncho_d r = of_int na \<and>
    numDetectoresReal_d r = doble (detectoresLargo_d r * detectoresAncho_d r) \<and>
    (\<bar>nl * na\<bar> \<le> 2 ^ 53 \<longrightarrow>
       numDetectoresReal_d r = detectoresLargo_d r * detectoresAncho_d r) \<and>
    espaciamientoLargoM_d r = redondear2 (cociente largoM (detectoresLargo_d r)) \<and>
    espaciamientoAnchoM_d r = redondear2 (cociente anchoM (detectoresAncho_d r))"
proof -
  have e: "\<bar>s - sqrt c\<bar> \<le> sqrt c / 2 ^ 53"
    using doble_error [of "sqrt c"] assms(7) by (simp add: assms(8))
  have p: "doble (of_int nl * of_int na) = of_int nl * of_int na" if "\<bar>nl * na\<bar> \<le> 2 ^ 53"
    using doble_entero [OF that] by simp
  show ?thesis
    using e p by (subst planificacion_aceptada_doble [OF assms]) simp
qed

text \<open>
  The thermal detector of class A1 (coverage 30 under 3 m) in a room of 10 m by 10 m: the
  maximum spacing returned is the double \<^verbatim>\<open>5.48\<close>, the grid is 2 by 2, the spacing is 5 on
  each axis, and there is no warning. The optical smoke detector in a room 171.5 m long: 20
  detectors along the length and a spacing returned of \<^verbatim>\<open>8.57\<close>, where exact arithmetic
  would round 8.575 to 8.58.
\<close>

theorem rejilla_real_witness:
  "(\<exists>r. calcularEspaciamientoDetectoresDoble tiposDetectores 2 3 10 10 = Inr r \<and>
      valido_d r \<and> mensaje_d r = [] \<and> coberturaMaximaM2_d r = 30 \<and>
      \<bar>doble (sqrt 30) - sqrt 30\<bar> \<le> sqrt 30 / 2 ^ 53 \<and>
      espaciamientoMaximoM_d r = doble 5.48 \<and>
      detectoresLargo_d r = 2 \<and> detectoresAncho_d r = 2 \<and> numDetectoresReal_d r = 4 \<and>
      espaciamientoLargoM_d r = Finito 5 \<and> espaciamientoAnchoM_d r = Finito 5 \<and>
      advertencias_d r = []) \<and>
   (\<exists>r. calcularEspaciamientoDetectoresDoble tiposDetectores 0 3 171.5 10 = Inr r \<and>
      valido_d r \<and> coberturaMaximaM2_d r = 80 \<and> detectoresLargo_d r = 20 \<and>
      espaciamientoLargoM_d r = Finito (doble 8.57))"
proof -
  have n: "2 = \<lceil>doble (10 / doble (sqrt 30))\<rceil>"
    by (simp add: techo_10_sqrt30_doble)
  from rejilla_real [where i = 2 and tabla = tiposDetectores
        and d = "tiposDetectores ! nat 2" and alturaM = 3 and c = 30
        and s = "doble (sqrt 30)" and nl = 2 and na = 2
        and largoM = 10 and anchoM = 10, OF detector_2_premisas(1,2) refl
          detector_2_premisas(3,4,5,6) refl n n]
  obtain r where r: "calcularEspaciamientoDetectoresDoble tiposDetectores 2 3 10 10 = Inr r"
    and e: "\<bar>doble (sqrt 30) - sqrt 30\<bar> \<le> sqrt 30 / 2 ^ 53"
    by blast
  have "r = \<lparr>areaM2_d = 100, numDetectoresMinimo_d = 4, coberturaMaximaM2_d = 30,
         espaciamientoMaximoM_d = doble 5.48, numDetectoresReal_d = 4, detectoresLargo_d = 2,
         detectoresAncho_d = 2, espaciamientoLargoM_d = Finito 5,
         espaciamientoAnchoM_d = Finito 5, distanciaParedLargoM_d = Finito 2.5,
         distanciaParedAnchoM_d = Finito 2.5, valido_d = True,
         mensaje_d = [], advertencias_d = []\<rparr>"
    using r escenario3_doble by simp
  with r e have 1: "\<exists>r. calcularEspaciamientoDetectoresDoble tiposDetectores 2 3 10 10 = Inr r \<and>
      valido_d r \<and> mensaje_d r = [] \<and> coberturaMaximaM2_d r = 30 \<and>
      \<bar>doble (sqrt 30) - sqrt 30\<bar> \<le> sqrt 30 / 2 ^ 53 \<and>
      espaciamientoMaximoM_d r = doble 5.48 \<and>
      detectoresLargo_d r = 2 \<and> detectoresAncho_d r = 2 \<and> numDetectoresReal_d r = 4 \<and>
      espaciamientoLargoM_d r = Finito 5 \<and> espaciamientoAnchoM_d r = Finito 5 \<and>
      advertencias_d r = []"
    by simp
  from rejilla_real [where i = 0 and tabla = tiposDetectores
        and d = "tiposDetectores ! nat 0" and alturaM = 3 and c = 80
        and s = "doble (sqrt 80)" and nl = 20 and largoM = "343 / 2" and anchoM = 10,
        OF detector_0_premisas(1,2) refl detector_0_premisas(3,4,5,6) refl
          techo_1715_sqrt80 refl]
  obtain r where "calcularEspaciamientoDetectoresDoble tiposDetectores 0 3 (343 / 2) 10 = Inr r"
    and "valido_d r" and "coberturaMaximaM2_d r = 80" and "detectoresLargo_d r = of_int 20"
    and "espaciamientoLargoM_d r = redondear2 (cociente (343 / 2) (detectoresLargo_d r))"
    by blast
  then have 2: "\<exists>r. calcularEspaciamientoDetectoresDoble tiposDetectores 0 3 171.5 10 = Inr r \<and>
      valido_d r \<and> coberturaMaximaM2_d r = 80 \<and> detectoresLargo_d r = 20 \<and>
      espaciamientoLargoM_d r = Finito (doble 8.57)"
    by (simp add: espaciamiento_1715_entre_20)
  from 1 2 show ?thesis
    by (rule conjI)
qed

subsection \<open>The tolerance and the warnings\<close>

text \<open>
  Rounding to a number of decimals, \<^verbatim>\<open>Math.round(x * k) / k\<close>, moves a double by half a
  unit of the last decimal kept, and by the three roundings to a double on the way.
\<close>

lemma doble_burdas:
  assumes "0 \<le> x"
  shows "99 / 100 * x \<le> doble x" and "doble x \<le> 101 / 100 * x"
proof -
  have "99 / 100 * x \<le> x * (1 - 1 / 2 ^ 53)" and "x * (1 + 1 / 2 ^ 53) \<le> 101 / 100 * x"
    using assms by simp_all
  then show "99 / 100 * x \<le> doble x" and "doble x \<le> 101 / 100 * x"
    using doble_cotas [OF assms] by linarith+
qed

lemma dos_redondeos:
  fixes p q u b t :: real
  assumes "p \<le> b / 2 ^ 53" and "b \<le> u + q" and "q \<le> t + u / 2 ^ 53"
    and "0 \<le> u" and "t \<le> 1 / 2"
  shows "p + q \<le> t + (u + 1) / 2 ^ 51"
proof -
  have "p \<le> (u + q) / 2 ^ 53"
    using assms(1,2) by (simp add: field_simps)
  also have "\<dots> \<le> (u + (t + u / 2 ^ 53)) / 2 ^ 53"
    using assms(3) by (intro divide_right_mono add_left_mono) simp_all
  finally have "p + q \<le> (u + (t + u / 2 ^ 53)) / 2 ^ 53 + (t + u / 2 ^ 53)"
    using assms(3) by linarith
  also have "\<dots> = t + u * (2 / 2 ^ 53 + 1 / 2 ^ 106) + t / 2 ^ 53"
    by (simp add: field_simps)
  also have "\<dots> \<le> t + u * (4 / 2 ^ 53) + (1 / 2) / 2 ^ 53"
    using assms(4,5) by (intro add_mono mult_left_mono divide_right_mono) simp_all
  also have "\<dots> \<le> t + (u + 1) / 2 ^ 51"
    by (simp add: field_simps)
  finally show ?thesis .
qed

lemma redondeo_doble_cerca:
  fixes x k :: real
  assumes "1 \<le> k"
  shows "\<bar>doble (Math_round (doble (x * k)) / k) - x\<bar> \<le> 1 / (2 * k) + (\<bar>x\<bar> + 1) / 2 ^ 51"
proof -
  define a where "a = doble (x * k)"
  define b where "b = Math_round a / k"
  define t where "t = 1 / (2 * k)"
  have k: "0 < k"
    using assms by simp
  have "\<bar>a - x * k\<bar> \<le> \<bar>x * k\<bar> / 2 ^ 53"
    unfolding a_def by (rule doble_error)
  then have 1: "\<bar>a - x * k\<bar> \<le> \<bar>x\<bar> * k / 2 ^ 53"
    using k by (simp add: abs_mult)
  have 2: "\<bar>Math_round a - a\<bar> \<le> 1 / 2"
    unfolding Math_round_def by linarith
  have "b - x = (Math_round a - x * k) / k"
    using k by (simp add: b_def field_simps)
  then have "\<bar>b - x\<bar> = \<bar>Math_round a - x * k\<bar> / k"
    using k by simp
  also have "\<dots> \<le> (1 / 2 + \<bar>x\<bar> * k / 2 ^ 53) / k"
    using 1 2 k by (intro divide_right_mono) linarith+
  also have "\<dots> = t + \<bar>x\<bar> / 2 ^ 53"
    using k by (simp add: t_def field_simps)
  finally have 3: "\<bar>b - x\<bar> \<le> t + \<bar>x\<bar> / 2 ^ 53" .
  have t: "0 \<le> t" "t \<le> 1 / 2"
    using assms by (simp_all add: t_def field_simps)
  have 4: "\<bar>doble b - b\<bar> \<le> \<bar>b\<bar> / 2 ^ 53"
    by (rule doble_error)
  have "\<bar>b\<bar> \<le> \<bar>x\<bar> + \<bar>b - x\<bar>"
    by simp
  from dos_redondeos [OF 4 this 3 _ t(2)]
  have "\<bar>doble b - b\<bar> + \<bar>b - x\<bar> \<le> t + (\<bar>x\<bar> + 1) / 2 ^ 51"
    by simp
  moreover have "\<bar>doble b - x\<bar> \<le> \<bar>doble b - b\<bar> + \<bar>b - x\<bar>"
    by simp
  ultimately have "\<bar>doble b - x\<bar> \<le> t + (\<bar>x\<bar> + 1) / 2 ^ 51"
    by (rule order_trans [rotated])
  then show ?thesis
    by (simp only: b_def a_def t_def)
qed

lemma espaciamiento_doble_acotado:
  fixes l s :: real
  assumes "0 < l" and "0 < s"
  shows "0 < \<lceil>doble (l / s)\<rceil>"
    and "doble (l / of_int \<lceil>doble (l / s)\<rceil>) \<le> doble (s * doble (21 / 20))"
    and "0 \<le> doble (l / of_int \<lceil>doble (l / s)\<rceil>)"
    and "doble (l / of_int \<lceil>doble (l / s)\<rceil>) \<le> 101 / 99 * s"
proof -
  define n :: real where "n = of_int \<lceil>doble (l / s)\<rceil>"
  have q: "0 < l / s"
    using assms by simp
  then have "0 < doble (l / s)"
    by (rule doble_positivo)
  then show c: "0 < \<lceil>doble (l / s)\<rceil>"
    by (simp add: ceiling_less_iff)
  then have n0: "0 < n"
    by (simp add: n_def)
  have "0 \<le> l / s"
    using q by simp
  then have "99 / 100 * (l / s) \<le> doble (l / s)"
    by (rule doble_burdas(1))
  also have "\<dots> \<le> n"
    unfolding n_def by (rule le_of_int_ceiling)
  finally have "99 / 100 * (l / s) \<le> n" .
  then have "99 / 100 * (l / s) * s \<le> n * s"
    using assms(2) by (intro mult_right_mono) simp_all
  then have "99 / 100 * l \<le> n * s"
    using assms(2) by simp
  then have "99 / 100 * l / n \<le> n * s / n"
    using n0 by (intro divide_right_mono) simp_all
  then have b: "l / n \<le> 100 / 99 * s"
    using n0 by (simp add: field_simps)
  have p: "0 \<le> l / n"
    using assms(1) n0 by simp
  then have "doble (l / n) \<le> 101 / 100 * (l / n)"
    by (rule doble_burdas(2))
  with b have a: "doble (l / n) \<le> 101 / 99 * s"
    by linarith
  then show "doble (l / of_int \<lceil>doble (l / s)\<rceil>) \<le> 101 / 99 * s"
    unfolding n_def .
  have "99 / 100 * (l / n) \<le> doble (l / n)"
    using p by (rule doble_burdas(1))
  with p show "0 \<le> doble (l / of_int \<lceil>doble (l / s)\<rceil>)"
    unfolding n_def by linarith
  have d: "26 / 25 \<le> doble (21 / 20)"
    using doble_105(1) by simp
  then have "s * (26 / 25) \<le> s * doble (21 / 20)"
    using assms(2) by (intro mult_left_mono) simp_all
  then have e: "26 / 25 * s \<le> s * doble (21 / 20)"
    by simp
  then have "0 \<le> s * doble (21 / 20)"
    using assms(2) by linarith
  then have "99 / 100 * (s * doble (21 / 20)) \<le> doble (s * doble (21 / 20))"
    by (rule doble_burdas(1))
  with e have "101 / 99 * s \<le> doble (s * doble (21 / 20))"
    using assms(2) by linarith
  with a show "doble (l / of_int \<lceil>doble (l / s)\<rceil>) \<le> doble (s * doble (21 / 20))"
    unfolding n_def by linarith
qed

lemma redondeado_dentro_de_tolerancia:
  fixes x s :: real
  assumes "0 \<le> x" and "x \<le> 101 / 99 * s" and "99 / 100 \<le> s"
  shows "doble (Math_round (doble (x * 100)) / 100)
    \<le> doble (Math_round (doble (s * 100)) / 100) * (21 / 20)"
proof -
  define y where "y = doble (Math_round (doble (x * 100)) / 100)"
  define z where "z = doble (Math_round (doble (s * 100)) / 100)"
  have "\<bar>y - x\<bar> \<le> 1 / (2 * 100) + (\<bar>x\<bar> + 1) / 2 ^ 51"
    unfolding y_def by (rule redondeo_doble_cerca) simp
  then have "y \<le> x + 1 / 200 + (x + 1) / 2 ^ 51"
    using assms(1) by (simp add: abs_le_iff)
  moreover have "(x + 1) / 2 ^ 51 \<le> (x + 1) / 1000"
    using assms(1) by (intro divide_left_mono) simp_all
  ultimately have a: "y \<le> 1001 / 1000 * x + 6 / 1000"
    by (simp add: add_divide_distrib)
  have "\<bar>z - s\<bar> \<le> 1 / (2 * 100) + (\<bar>s\<bar> + 1) / 2 ^ 51"
    unfolding z_def by (rule redondeo_doble_cerca) simp
  then have "s - 1 / 200 - (s + 1) / 2 ^ 51 \<le> z"
    using assms(3) by (simp add: abs_le_iff)
  moreover have "(s + 1) / 2 ^ 51 \<le> (s + 1) / 1000"
    using assms(3) by (intro divide_left_mono) simp_all
  ultimately have b: "999 / 1000 * s - 6 / 1000 \<le> z"
    by (simp add: add_divide_distrib)
  have "y \<le> 21 / 20 * z"
    using a b assms by linarith
  then show ?thesis
    by (simp add: y_def z_def)
qed

lemma espaciamiento_de_lado_positivo:
  fixes l c :: real
  assumes "0 < l" and "0 < c" and "s = doble (sqrt c)" and "n = \<lceil>doble (l / s)\<rceil>"
  shows "cociente l (of_int n) = Finito (doble (l / of_int n))"
    and "doble (l / of_int n) \<le> doble (s * doble (21 / 20))"
    and "1 \<le> c \<Longrightarrow> doble (Math_round (doble (doble (l / of_int n) * 100)) / 100)
      \<le> doble (Math_round (doble (s * 100)) / 100) * (21 / 20)"
proof -
  have s: "0 < s"
    using assms(2) by (simp add: assms(3) doble_positivo)
  note h = espaciamiento_doble_acotado [OF assms(1) s, folded assms(4)]
  show "cociente l (of_int n) = Finito (doble (l / of_int n))"
    using h(1) by (simp add: cociente_def)
  show "doble (l / of_int n) \<le> doble (s * doble (21 / 20))"
    by (rule h(2))
  show "doble (Math_round (doble (doble (l / of_int n) * 100)) / 100)
      \<le> doble (Math_round (doble (s * 100)) / 100) * (21 / 20)" if "1 \<le> c"
  proof (rule redondeado_dentro_de_tolerancia [OF h(3) h(4)])
    have "1 \<le> sqrt c"
      using that by simp
    then show "99 / 100 \<le> s"
      unfolding assms(3) by (rule doble_inf) simp_all
  qed
qed

text \<open>
  C4, as amended. For every accepted layout the result stays valid, and its warnings are
  exactly these: for each axis whose real spacing exceeds \<open>umbral\<close>, the maximum spacing
  times 1.05 on doubles, one string that names the axis and gives the real and the maximum
  spacing with two decimals. A count of zero along a negative side makes the real spacing
  \<^verbatim>\<open>Infinity\<close>, which exceeds \<open>umbral\<close> and is printed as such. When the side of an axis
  is positive, its real spacing is finite and at most \<open>umbral\<close>; and if the coverage is
  at least 1, the rounded spacing returned is at most 1.05 times the rounded maximum
  spacing returned. The bound needs the positive side.
\<close>

theorem tolerancia_y_avisos:
  assumes "0 \<le> i" and "i < int (length tabla)" and "d = tabla ! nat i"
    and "alturaM \<le> alturaMaxM d"
    and "obtenerRangoAltura alturaM < length (coberturaMaxM2 d)"
    and "c = coberturaMaxM2 d ! obtenerRangoAltura alturaM" and "0 < c"
    and "s = doble (sqrt c)" and "umbral = doble (s * doble 1.05)"
    and "nl = \<lceil>doble (largoM / s)\<rceil>" and "na = \<lceil>doble (anchoM / s)\<rceil>"
  shows "\<exists>r. calcularEspaciamientoDetectoresDoble tabla i alturaM largoM anchoM = Inr r \<and>
    valido_d r \<and>
    detectoresLargo_d r = of_int nl \<and>
    detectoresAncho_d r = of_int na \<and>
    advertencias_d r =
      (if mayorQue (cociente largoM (detectoresLargo_d r)) umbral then
         [''Espaciamiento en largo ('' @ toFixed2N (cociente largoM (detectoresLargo_d r)) @
          ''m) supera el maximo ('' @ toFixed2 s @ ''m)'']
       else []) @
      (if mayorQue (cociente anchoM (detectoresAncho_d r)) umbral then
         [''Espaciamiento en ancho ('' @ toFixed2N (cociente anchoM (detectoresAncho_d r)) @
          ''m) supera el maximo ('' @ toFixed2 s @ ''m)'']
       else []) \<and>
    (0 < largoM \<longrightarrow>
       (\<exists>x. cociente largoM (detectoresLargo_d r) = Finito x \<and> x \<le> umbral) \<and>
       (1 \<le> c \<longrightarrow>
          (\<exists>y. espaciamientoLargoM_d r = Finito y \<and> y \<le> espaciamientoMaximoM_d r * 1.05))) \<and>
    (0 < anchoM \<longrightarrow>
       (\<exists>x. cociente anchoM (detectoresAncho_d r) = Finito x \<and> x \<le> umbral) \<and>
       (1 \<le> c \<longrightarrow>
          (\<exists>y. espaciamientoAnchoM_d r = Finito y \<and> y \<le> espaciamientoMaximoM_d r * 1.05)))"
proof -
  note l = espaciamiento_de_lado_positivo [OF _ assms(7,8,10)]
  note a = espaciamiento_de_lado_positivo [OF _ assms(7,8,11)]
  have "0 < largoM \<longrightarrow>
      cociente largoM (of_int nl) = Finito (doble (largoM / of_int nl)) \<and>
      doble (largoM / of_int nl) \<le> doble (s * doble (21 / 20)) \<and>
      (1 \<le> c \<longrightarrow> doble (Math_round (doble (doble (largoM / of_int nl) * 100)) / 100)
        \<le> doble (Math_round (doble (s * 100)) / 100) * (21 / 20))"
    using l by blast
  moreover have "0 < anchoM \<longrightarrow>
      cociente anchoM (of_int na) = Finito (doble (anchoM / of_int na)) \<and>
      doble (anchoM / of_int na) \<le> doble (s * doble (21 / 20)) \<and>
      (1 \<le> c \<longrightarrow> doble (Math_round (doble (doble (anchoM / of_int na) * 100)) / 100)
        \<le> doble (Math_round (doble (s * 100)) / 100) * (21 / 20))"
    using a by blast
  ultimately show ?thesis
    by (subst planificacion_aceptada_doble [OF assms(1-8,10,11)]) (simp add: assms(9))
qed

text \<open>
  The same detector in a room whose length is -10, and in one whose length is -1: the planner
  refuses neither. The first has a count of -1 along the length and a spacing of 10, the
  second a count of zero and a spacing that is not finite.
\<close>

lemma doble_548: "doble (137 / 25) \<le> 5.5"
  by (rule doble_sup [where b = "137 / 25"]) simp_all

lemma toFixed2_10: "toFixed2 10 = ''10.00''"
  by (simp add: toFixed2_def Let_def digitos.simps digito_def)

lemma techo_menos1_sqrt30_doble: "\<lceil>doble (- (1 / doble (sqrt 30)))\<rceil> = 0"
proof -
  have s: "0 < doble (sqrt 30)"
    using doble_sqrt30(1) by simp
  have a: "- (1 / 5) \<le> - (1 / doble (sqrt 30))"
    using doble_sqrt30(1) s by (simp add: pos_divide_le_eq)
  have b: "- (1 / doble (sqrt 30)) \<le> - (1 / 6)"
    using doble_sqrt30(2) s by (simp add: pos_le_divide_eq)
  have n: "- (1 / doble (sqrt 30)) \<le> 0"
    using s by simp
  have "- (1 / 4) \<le> doble (- (1 / doble (sqrt 30)))"
    by (rule doble_inf_neg [OF a n]) simp
  moreover have "doble (- (1 / doble (sqrt 30))) \<le> - (1 / 7)"
    by (rule doble_sup_neg [OF b]) simp_all
  ultimately show ?thesis
    by (simp add: ceiling_eq_iff)
qed

lemma umbral_sqrt30_comparado:
  "\<not> 5 > doble (doble (sqrt 30) * doble (21 / 20))"
  "10 > doble (doble (sqrt 30) * doble (21 / 20))"
  using umbral_sqrt30 by simp_all

lemma escenario_largo_negativo_doble:
  "calcularEspaciamientoDetectoresDoble tiposDetectores 2 3 (- 10) 10 =
    Inr \<lparr>areaM2_d = - 100, numDetectoresMinimo_d = - 3, coberturaMaximaM2_d = 30,
         espaciamientoMaximoM_d = doble 5.48, numDetectoresReal_d = - 2,
         detectoresLargo_d = - 1, detectoresAncho_d = 2,
         espaciamientoLargoM_d = Finito 10, espaciamientoAnchoM_d = Finito 5,
         distanciaParedLargoM_d = Finito 5, distanciaParedAnchoM_d = Finito 2.5,
         valido_d = True, mensaje_d = [],
         advertencias_d = [''Espaciamiento en largo (10.00m) supera el maximo (5.48m)'']\<rparr>"
proof -
  have n: "2 = \<lceil>doble (10 / doble (sqrt 30))\<rceil>"
    and m: "- 1 = \<lceil>doble (- 10 / doble (sqrt 30))\<rceil>"
    by (simp_all add: techo_10_sqrt30_doble techo_menos10_sqrt30_doble)
  note h = planificacion_aceptada_doble [where i = 2 and tabla = tiposDetectores
        and d = "tiposDetectores ! nat 2" and alturaM = 3 and c = 30
        and s = "doble (sqrt 30)" and nl = "- 1" and na = 2
        and largoM = "- 10" and anchoM = 10, OF detector_2_premisas(1,2) refl
          detector_2_premisas(3,4,5,6) refl m n]
  show ?thesis
    using umbral_sqrt30_comparado by (subst h)
      (simp add: cociente_def doble_numeral doble_mitades Math_round_enteros
        techo_10_tercios_doble redondeo_sqrt30_doble toFixed2_sqrt30_doble toFixed2_10)
qed

lemma techo_menos_un_tercio_doble: "\<lceil>doble (- (1 / 3))\<rceil> = 0"
proof -
  have "- (1 / 2) \<le> doble (- (1 / 3))"
    by (rule doble_inf_neg [where a = "- (1 / 3)"]) simp_all
  moreover have "doble (- (1 / 3)) \<le> - (1 / 4)"
    by (rule doble_sup_neg [where b = "- (1 / 3)"]) simp_all
  ultimately show ?thesis
    by (simp add: ceiling_eq_iff)
qed

lemma escenario_sin_detectores_doble:
  "calcularEspaciamientoDetectoresDoble tiposDetectores 2 3 (- 1) 10 =
    Inr \<lparr>areaM2_d = - 10, numDetectoresMinimo_d = 0, coberturaMaximaM2_d = 30,
         espaciamientoMaximoM_d = doble 5.48, numDetectoresReal_d = 0,
         detectoresLargo_d = 0, detectoresAncho_d = 2,
         espaciamientoLargoM_d = Infinito, espaciamientoAnchoM_d = Finito 5,
         distanciaParedLargoM_d = Infinito, distanciaParedAnchoM_d = Finito 2.5,
         valido_d = True, mensaje_d = [],
         advertencias_d =
           [''Espaciamiento en largo (Infinitym) supera el maximo (5.48m)'']\<rparr>"
proof -
  have n: "2 = \<lceil>doble (10 / doble (sqrt 30))\<rceil>"
    and z: "0 = \<lceil>doble (- 1 / doble (sqrt 30))\<rceil>"
    by (simp_all add: techo_10_sqrt30_doble techo_menos1_sqrt30_doble)
  note h = planificacion_aceptada_doble [where i = 2 and tabla = tiposDetectores
        and d = "tiposDetectores ! nat 2" and alturaM = 3 and c = 30
        and s = "doble (sqrt 30)" and nl = 0 and na = 2
        and largoM = "- 1" and anchoM = 10, OF detector_2_premisas(1,2) refl
          detector_2_premisas(3,4,5,6) refl z n]
  show ?thesis
    using umbral_sqrt30_comparado by (subst h)
      (simp add: cociente_def doble_numeral doble_mitades Math_round_enteros
        techo_menos_un_tercio_doble redondeo_sqrt30_doble toFixed2_sqrt30_doble)
qed

lemma techo_menos29625_sqrt30: "- 5 = \<lceil>doble (- (237 / 8) / doble (sqrt 30))\<rceil>"
proof -
  have s: "0 < doble (sqrt 30)"
    using doble_sqrt30(1) by simp
  have a: "- 5.41 \<le> - (237 / (8 * doble (sqrt 30)))"
    using doble_sqrt30(1) s by (simp add: pos_divide_le_eq)
  have b: "- (237 / (8 * doble (sqrt 30))) \<le> - 5.4"
    using doble_sqrt30(2) s by (simp add: pos_le_divide_eq)
  have n: "- (237 / (8 * doble (sqrt 30))) \<le> 0"
    using s by simp
  have "- 5.5 \<le> doble (- (237 / (8 * doble (sqrt 30))))"
    by (rule doble_inf_neg [OF a n]) simp
  moreover have "doble (- (237 / (8 * doble (sqrt 30)))) \<le> - 5.3"
    by (rule doble_sup_neg [OF b]) simp_all
  ultimately have "\<lceil>doble (- (237 / (8 * doble (sqrt 30))))\<rceil> = - 5"
    by (simp add: ceiling_eq_iff)
  then show ?thesis
    by simp
qed

lemma espaciamiento_29625_entre_5:
  "doble (237 / 40) = 6670956948042547 / 2 ^ 50"
  "toFixed2 (6670956948042547 / 1125899906842624) = ''5.92''"
  "doble (doble (sqrt 30) * doble (21 / 20)) * 1125899906842624 < 6670956948042547"
proof -
  show "doble (237 / 40) = 6670956948042547 / 2 ^ 50"
    using doble_evalua_fraccion [where n = 50 and m = 6670956948042547 and x = "237 / 40"]
    by simp
  have "\<lfloor>\<bar>6670956948042547 / 1125899906842624 :: real\<bar> * 100 + 1 / 2\<rfloor> = 592"
    by (simp add: floor_eq_iff)
  then show "toFixed2 (6670956948042547 / 1125899906842624) = ''5.92''"
    by (simp add: toFixed2_def Let_def digitos.simps digito_def)
  have "doble (doble (sqrt 30) * doble (21 / 20)) * 1125899906842624 \<le> 59 / 10 * 1125899906842624"
    using umbral_sqrt30(2) by (intro mult_right_mono) simp_all
  then show "doble (doble (sqrt 30) * doble (21 / 20)) * 1125899906842624 < 6670956948042547"
    by simp
qed

text \<open>
  The room of 10 m by 10 m stays within the tolerance on both axes; the lengths -10 and -1
  each give a valid result with a warning. With a length of -29.625 the spacing is the
  double just below 5.925, which the warning prints as \<^verbatim>\<open>5.92\<close>.
\<close>

theorem tolerancia_y_avisos_witness:
  "(\<exists>r. calcularEspaciamientoDetectoresDoble tiposDetectores 2 3 10 10 = Inr r \<and> valido_d r \<and>
      cociente 10 (detectoresLargo_d r) = Finito 5 \<and>
      cociente 10 (detectoresAncho_d r) = Finito 5 \<and>
      5 \<le> doble (doble (sqrt 30) * doble 1.05) \<and>
      espaciamientoLargoM_d r = Finito 5 \<and> espaciamientoAnchoM_d r = Finito 5 \<and>
      5 \<le> espaciamientoMaximoM_d r * 1.05 \<and>
      advertencias_d r = []) \<and>
   (\<exists>r. calcularEspaciamientoDetectoresDoble tiposDetectores 2 3 (- 10) 10 = Inr r \<and>
      valido_d r \<and>
      cociente (- 10) (detectoresLargo_d r) = Finito 10 \<and>
      10 > doble (doble (sqrt 30) * doble 1.05) \<and>
      advertencias_d r = [''Espaciamiento en largo (10.00m) supera el maximo (5.48m)'']) \<and>
   (\<exists>r. calcularEspaciamientoDetectoresDoble tiposDetectores 2 3 (- 1) 10 = Inr r \<and>
      valido_d r \<and>
      detectoresLargo_d r = 0 \<and>
      cociente (- 1) (detectoresLargo_d r) = Infinito \<and>
      advertencias_d r = [''Espaciamiento en largo (Infinitym) supera el maximo (5.48m)'']) \<and>
   (\<exists>r. calcularEspaciamientoDetectoresDoble tiposDetectores 2 3 (- 29.625) 10 = Inr r \<and>
      valido_d r \<and>
      detectoresLargo_d r = - 5 \<and>
      advertencias_d r = [''Espaciamiento en largo (5.92m) supera el maximo (5.48m)''])"
proof -
  have n: "2 = \<lceil>doble (10 / doble (sqrt 30))\<rceil>"
    and m: "- 1 = \<lceil>doble (- 10 / doble (sqrt 30))\<rceil>"
    and z: "0 = \<lceil>doble (- 1 / doble (sqrt 30))\<rceil>"
    by (simp_all add: techo_10_sqrt30_doble techo_menos10_sqrt30_doble
        techo_menos1_sqrt30_doble)
  note u = umbral_sqrt30_comparado
  from tolerancia_y_avisos [where i = 2 and tabla = tiposDetectores
        and d = "tiposDetectores ! nat 2" and alturaM = 3 and c = 30
        and s = "doble (sqrt 30)" and nl = 2 and na = 2
        and largoM = 10 and anchoM = 10, OF detector_2_premisas(1,2) refl
          detector_2_premisas(3,4,5,6) refl refl n n]
  obtain a where a: "calcularEspaciamientoDetectoresDoble tiposDetectores 2 3 10 10 = Inr a"
    and "\<exists>y. espaciamientoLargoM_d a = Finito y \<and> y \<le> espaciamientoMaximoM_d a * 1.05"
    by auto
  then have 1: "\<exists>r. calcularEspaciamientoDetectoresDoble tiposDetectores 2 3 10 10 = Inr r \<and>
      valido_d r \<and>
      cociente 10 (detectoresLargo_d r) = Finito 5 \<and>
      cociente 10 (detectoresAncho_d r) = Finito 5 \<and>
      5 \<le> doble (doble (sqrt 30) * doble 1.05) \<and>
      espaciamientoLargoM_d r = Finito 5 \<and> espaciamientoAnchoM_d r = Finito 5 \<and>
      5 \<le> espaciamientoMaximoM_d r * 1.05 \<and>
      advertencias_d r = []"
    using u(1) by (auto simp add: escenario3_doble cociente_def doble_numeral)
  from tolerancia_y_avisos [where i = 2 and tabla = tiposDetectores
        and d = "tiposDetectores ! nat 2" and alturaM = 3 and c = 30
        and s = "doble (sqrt 30)" and nl = "- 1" and na = 2
        and largoM = "- 10" and anchoM = 10, OF detector_2_premisas(1,2) refl
          detector_2_premisas(3,4,5,6) refl refl m n]
  obtain b where b: "calcularEspaciamientoDetectoresDoble tiposDetectores 2 3 (- 10) 10 = Inr b"
    and "detectoresLargo_d b = - 1"
    by auto
  then have 2: "\<exists>r. calcularEspaciamientoDetectoresDoble tiposDetectores 2 3 (- 10) 10 = Inr r \<and>
      valido_d r \<and>
      cociente (- 10) (detectoresLargo_d r) = Finito 10 \<and>
      10 > doble (doble (sqrt 30) * doble 1.05) \<and>
      advertencias_d r = [''Espaciamiento en largo (10.00m) supera el maximo (5.48m)'']"
    using u(2) by (auto simp add: escenario_largo_negativo_doble cociente_def doble_numeral)
  from tolerancia_y_avisos [where i = 2 and tabla = tiposDetectores
        and d = "tiposDetectores ! nat 2" and alturaM = 3 and c = 30
        and s = "doble (sqrt 30)" and nl = 0 and na = 2
        and largoM = "- 1" and anchoM = 10, OF detector_2_premisas(1,2) refl
          detector_2_premisas(3,4,5,6) refl refl z n]
  obtain c where c: "calcularEspaciamientoDetectoresDoble tiposDetectores 2 3 (- 1) 10 = Inr c"
    and "detectoresLargo_d c = 0"
    by auto
  then have 3: "\<exists>r. calcularEspaciamientoDetectoresDoble tiposDetectores 2 3 (- 1) 10 = Inr r \<and>
      valido_d r \<and>
      detectoresLargo_d r = 0 \<and>
      cociente (- 1) (detectoresLargo_d r) = Infinito \<and>
      advertencias_d r = [''Espaciamiento en largo (Infinitym) supera el maximo (5.48m)'']"
    by (auto simp add: escenario_sin_detectores_doble cociente_def)
  from tolerancia_y_avisos [where i = 2 and tabla = tiposDetectores
        and d = "tiposDetectores ! nat 2" and alturaM = 3 and c = 30
        and s = "doble (sqrt 30)" and nl = "- 5" and na = 2
        and largoM = "- (237 / 8)" and anchoM = 10, OF detector_2_premisas(1,2) refl
          detector_2_premisas(3,4,5,6) refl refl techo_menos29625_sqrt30 n]
  obtain e where "calcularEspaciamientoDetectoresDoble tiposDetectores 2 3 (- (237 / 8)) 10 = Inr e"
    and "valido_d e"
    and "detectoresLargo_d e = of_int (- 5)" and "detectoresAncho_d e = of_int 2"
    and "advertencias_d e =
      (if mayorQue (cociente (- (237 / 8)) (detectoresLargo_d e))
            (doble (doble (sqrt 30) * doble 1.05)) then
         [''Espaciamiento en largo ('' @
          toFixed2N (cociente (- (237 / 8)) (detectoresLargo_d e)) @
          ''m) supera el maximo ('' @ toFixed2 (doble (sqrt 30)) @ ''m)'']
       else []) @
      (if mayorQue (cociente 10 (detectoresAncho_d e))
            (doble (doble (sqrt 30) * doble 1.05)) then
         [''Espaciamiento en ancho ('' @ toFixed2N (cociente 10 (detectoresAncho_d e)) @
          ''m) supera el maximo ('' @ toFixed2 (doble (sqrt 30)) @ ''m)'']
       else [])"
    by blast
  then have 4: "\<exists>r. calcularEspaciamientoDetectoresDoble tiposDetectores 2 3 (- 29.625) 10 = Inr r \<and>
      valido_d r \<and>
      detectoresLargo_d r = - 5 \<and>
      advertencias_d r = [''Espaciamiento en largo (5.92m) supera el maximo (5.48m)'']"
    using u(1)
    by (simp add: cociente_def doble_numeral espaciamiento_29625_entre_5
        toFixed2_sqrt30_doble)
  from 1 2 3 4 show ?thesis
    by (intro conjI)
qed

text \<open>
  C4 as stated, without the positive sides, fails: with a length of -10 the result is valid,
  the real spacing along the length is 10, and 10 is more than 1.05 times the maximum
  spacing, both before the rounding to two decimals and after it.
\<close>

theorem tolerancia_y_avisos_counterexample:
  "\<exists>r. calcularEspaciamientoDetectoresDoble tiposDetectores 2 3 (- 10) 10 = Inr r \<and>
     valido_d r \<and>
     cociente (- 10) (detectoresLargo_d r) = Finito 10 \<and>
     10 > doble (doble (sqrt 30) * doble 1.05) \<and>
     espaciamientoLargoM_d r = Finito 10 \<and>
     espaciamientoMaximoM_d r = doble 5.48 \<and>
     10 > doble 5.48 * 1.05"
proof -
  have "doble (137 / 25) * 21 < 200"
    using doble_548 by simp
  then show ?thesis
    using umbral_sqrt30_comparado(2)
    by (simp add: escenario_largo_negativo_doble cociente_def doble_numeral)
qed

subsection \<open>The theoretical minimum and the real grid\<close>

text \<open>
  The value of \<open>doble\<close> at a real that lies within half a unit of the last bit of a given
  double. The side \<^verbatim>\<open>8.94427190999916\<close> is the double nearest to the square root of 80,
  the coverage of the optical smoke detector under 3 m: the side over the maximum spacing
  is exactly 1, while the product of the side by itself rounds to a double above 80.
\<close>

lemma doble_lado_critico: "doble 8.94427190999916 = 5035177455121576 / 2 ^ 49"
  using doble_evalua_fraccion [where n = 49 and x = "8.94427190999916" and m = 5035177455121576]
  by simp

lemma doble_area_critica:
  "doble (5035177455121576 / 2 ^ 49 * (5035177455121576 / 2 ^ 49)) = 5629499534213121 / 2 ^ 46"
  using doble_evalua_fraccion [where n = 46 and m = 5629499534213121
      and x = "5035177455121576 / 2 ^ 49 * (5035177455121576 / 2 ^ 49)"]
  by simp

lemma doble_minimo_critico:
  "doble (5629499534213121 / 2 ^ 46 / 80) = 4503599627370497 / 2 ^ 52"
  using doble_evalua_fraccion [where n = 52 and m = 4503599627370497
      and x = "5629499534213121 / 2 ^ 46 / 80"]
  by simp

lemma techo_minimo_critico: "\<lceil>(4503599627370497 :: real) / 2 ^ 52\<rceil> = 2"
  by (simp add: ceiling_eq_iff)

lemma lado_critico:
  assumes "l = doble 8.94427190999916"
  shows "1 = \<lceil>doble (l / doble (sqrt 80))\<rceil>"
    and "\<lceil>doble (doble (l * l) / 80)\<rceil> = 2"
    and "0 < l"
proof -
  have l: "l = 5035177455121576 / 2 ^ 49"
    using assms by (simp only: doble_lado_critico)
  have "l / doble (sqrt 80) = 1"
    unfolding l doble_sqrt80 by simp
  then show "1 = \<lceil>doble (l / doble (sqrt 80))\<rceil>"
    by simp
  show "\<lceil>doble (doble (l * l) / 80)\<rceil> = 2"
    unfolding l doble_area_critica doble_minimo_critico by (rule techo_minimo_critico)
  show "0 < l"
    unfolding l by simp
qed

lemma lado_32:
  assumes "l = doble 3.2"
  shows "1 = \<lceil>doble (l / doble (sqrt 80))\<rceil>"
    and "3 = \<lceil>doble (25 / doble (sqrt 80))\<rceil>"
    and "\<lceil>doble (doble (l * 25) / 80)\<rceil> = 1"
    and "0 < l"
proof -
  have "doble 3.2 = 7205759403792794 / 2 ^ 51"
    using doble_evalua_fraccion [where n = 51 and x = "3.2" and m = 7205759403792794]
    by simp
  then have l: "l = 7205759403792794 / 2 ^ 51"
    using assms by (simp only:)
  have "0.3 \<le> doble (l / doble (sqrt 80)) \<and> doble (l / doble (sqrt 80)) \<le> 0.4"
    unfolding l doble_sqrt80 by (rule doble_entre [where a = "0.35" and b = "0.36"]) simp_all
  then show "1 = \<lceil>doble (l / doble (sqrt 80))\<rceil>"
    by (simp add: ceiling_eq_iff)
  have "2.7 \<le> doble (25 / doble (sqrt 80)) \<and> doble (25 / doble (sqrt 80)) \<le> 2.9"
    unfolding doble_sqrt80 by (rule doble_entre [where a = "2.79" and b = "2.8"]) simp_all
  then show "3 = \<lceil>doble (25 / doble (sqrt 80))\<rceil>"
    by (simp add: ceiling_eq_iff)
  have "doble (7205759403792794 / 2 ^ 51 * 25) = 5629499534213120 / 2 ^ 46"
    using doble_evalua_fraccion [where n = 46 and m = 5629499534213120
        and x = "7205759403792794 / 2 ^ 51 * 25"]
    by simp
  then show "\<lceil>doble (doble (l * 25) / 80)\<rceil> = 1"
    unfolding l by simp
  show "0 < l"
    unfolding l by simp
qed

text \<open>
  On doubles the ceiling of the area over the coverage exceeds the product of the two counts
  by at most one: the roundings of the square root, of the product of the sides and of the
  three quotients move the quotient by six parts in \<open>2 ^ 53\<close> at most.
\<close>

lemma minimo_le_real_mas_uno:
  fixes l w c s :: real and nl na :: int
  assumes "0 < l" and "0 < w" and "0 < c" and "s = doble (sqrt c)"
    and "nl = \<lceil>doble (l / s)\<rceil>" and "na = \<lceil>doble (w / s)\<rceil>"
    and "nl * na \<le> 2 ^ 50"
  shows "\<lceil>doble (doble (l * w) / c)\<rceil> \<le> nl * na + 1"
proof -
  define d0 :: real where "d0 = 1 - 1 / 2 ^ 53"
  define d1 :: real where "d1 = 1 + 1 / 2 ^ 53"
  define u where "u = l / s"
  define v where "v = w / s"
  define P :: real where "P = of_int (nl * na)"
  have d: "0 < d0" "0 < d1" "d1 * d1 * (d1 * d1) \<le> d0 * d0 * (1 + 1 / 2 ^ 50)"
    by (simp_all add: d0_def d1_def)
  have s: "0 < s"
    using assms(3) by (simp add: assms(4) doble_positivo)
  have u: "0 < u" and v: "0 < v"
    using assms(1,2) s by (simp_all add: u_def v_def)
  have "u * d0 \<le> doble u"
    unfolding d0_def using u by (intro doble_cotas(1)) simp
  also have "\<dots> \<le> of_int nl"
    unfolding assms(5) u_def by (rule le_of_int_ceiling)
  finally have 1: "u * d0 \<le> of_int nl" .
  have "v * d0 \<le> doble v"
    unfolding d0_def using v by (intro doble_cotas(1)) simp
  also have "\<dots> \<le> of_int na"
    unfolding assms(6) v_def by (rule le_of_int_ceiling)
  finally have 2: "v * d0 \<le> of_int na" .
  have "0 < u * d0"
    using u d(1) by simp
  with 1 have n: "0 \<le> (of_int nl :: real)"
    by linarith
  have "u * d0 * (v * d0) \<le> of_int nl * of_int na"
    using 1 2 n u v d(1) by (intro mult_mono) simp_all
  then have 3: "u * v * (d0 * d0) \<le> P"
    by (simp add: P_def mult_ac)
  have "P \<le> of_int (2 ^ 50)"
    unfolding P_def using assms(7) by (simp only: of_int_le_iff)
  then have P: "P / 2 ^ 50 \<le> 1"
    by simp
  have "s \<le> sqrt c * d1"
    unfolding assms(4) d1_def using assms(3) by (intro doble_cotas(2)) simp
  then have "s * s \<le> sqrt c * d1 * (sqrt c * d1)"
    using s by (intro mult_mono) simp_all
  also have "\<dots> = c * (d1 * d1)"
    using assms(3) by (simp add: mult_ac)
  finally have 4: "s * s \<le> c * (d1 * d1)" .
  have "l * w = u * v * (s * s)"
    using s by (simp add: u_def v_def)
  also have "\<dots> \<le> u * v * (c * (d1 * d1))"
    using 4 u v by (intro mult_left_mono) simp_all
  finally have "l * w / c \<le> u * v * (c * (d1 * d1)) / c"
    using assms(3) by (intro divide_right_mono) simp_all
  then have 5: "l * w / c \<le> u * v * (d1 * d1)"
    using assms(3) by simp
  have p: "0 \<le> l * w"
    using assms(1,2) by simp
  have "doble (l * w) \<le> l * w * d1"
    unfolding d1_def using p by (rule doble_cotas(2))
  then have "doble (l * w) / c \<le> l * w * d1 / c"
    using assms(3) by (intro divide_right_mono) simp_all
  then have 6: "doble (l * w) / c \<le> l * w / c * d1"
    by simp
  have "0 < l * w"
    using assms(1,2) by simp
  then have "0 < doble (l * w)"
    by (rule doble_positivo)
  then have "0 \<le> doble (l * w) / c"
    using assms(3) by simp
  then have "doble (doble (l * w) / c) \<le> doble (l * w) / c * d1"
    unfolding d1_def by (rule doble_cotas(2))
  also have "\<dots> \<le> l * w / c * d1 * d1"
    using 6 d(2) by (intro mult_right_mono) simp_all
  also have "\<dots> \<le> u * v * (d1 * d1) * d1 * d1"
    using 5 d(2) by (intro mult_right_mono) simp_all
  also have "\<dots> = u * v * (d1 * d1 * (d1 * d1))"
    by (simp add: mult_ac)
  also have "\<dots> \<le> u * v * (d0 * d0 * (1 + 1 / 2 ^ 50))"
    using d(3) u v by (intro mult_left_mono) simp_all
  also have "\<dots> = u * v * (d0 * d0) * (1 + 1 / 2 ^ 50)"
    by (simp add: mult_ac)
  also have "\<dots> \<le> P * (1 + 1 / 2 ^ 50)"
    using 3 by (intro mult_right_mono) simp_all
  also have "\<dots> = P + P / 2 ^ 50"
    by (simp add: algebra_simps)
  also have "\<dots> \<le> P + 1"
    using P by simp
  finally have "doble (doble (l * w) / c) \<le> of_int (nl * na + 1)"
    by (simp add: P_def)
  then show ?thesis
    by (rule ceiling_le)
qed

text \<open>
  C10, as amended. For every accepted layout of a room with positive sides whose grid has
  at most \<open>2 ^ 50\<close> detectors, the total of the real grid is the product of the two counts
  and the theoretical minimum, the ceiling of the area over the coverage on doubles, is at
  most that total plus one.
\<close>

theorem real_no_menor_que_minimo:
  assumes "0 \<le> i" and "i < int (length tabla)" and "d = tabla ! nat i"
    and "alturaM \<le> alturaMaxM d"
    and "obtenerRangoAltura alturaM < length (coberturaMaxM2 d)"
    and "c = coberturaMaxM2 d ! obtenerRangoAltura alturaM" and "0 < c"
    and "s = doble (sqrt c)"
    and "nl = \<lceil>doble (largoM / s)\<rceil>" and "na = \<lceil>doble (anchoM / s)\<rceil>"
    and "0 < largoM" and "0 < anchoM" and "nl * na \<le> 2 ^ 50"
  shows "\<exists>r. calcularEspaciamientoDetectoresDoble tabla i alturaM largoM anchoM = Inr r \<and>
    valido_d r \<and>
    numDetectoresMinimo_d r = of_int \<lceil>doble (doble (largoM * anchoM) / c)\<rceil> \<and>
    numDetectoresReal_d r = of_int (nl * na) \<and>
    numDetectoresMinimo_d r \<le> numDetectoresReal_d r + 1"
proof -
  have "0 < \<lceil>doble (largoM / s)\<rceil>" and "0 < \<lceil>doble (anchoM / s)\<rceil>"
    using assms(7,11,12)
    by (simp_all add: assms(8) doble_positivo espaciamiento_doble_acotado(1))
  then have "0 \<le> nl * na"
    using assms(9,10) by simp
  then have "\<bar>nl * na\<bar> \<le> 2 ^ 53"
    using assms(13) by simp
  then have p: "doble (of_int nl * of_int na) = of_int (nl * na)"
    using doble_entero [of "nl * na"] by simp
  have "(of_int \<lceil>doble (doble (largoM * anchoM) / c)\<rceil> :: real) \<le> of_int (nl * na + 1)"
    using minimo_le_real_mas_uno [OF assms(11,12,7,8,9,10,13)] by (simp only: of_int_le_iff)
  then have "(of_int \<lceil>doble (doble (largoM * anchoM) / c)\<rceil> :: real) \<le> of_int (nl * na) + 1"
    by simp
  then show ?thesis
    by (subst planificacion_aceptada_doble [OF assms(1-10)]) (simp add: p)
qed

text \<open>
  The optical smoke detector under 3 m in a room whose sides are both the double
  \<^verbatim>\<open>8.94427190999916\<close>: a minimum of 2 against a grid of 1. In a room of 3.2 m by 25 m
  the product of the sides rounds to 80: a minimum of 1 against a grid of 3.
\<close>

theorem real_no_menor_que_minimo_witness:
  "(\<exists>r. calcularEspaciamientoDetectoresDoble tiposDetectores 0 3
        (doble 8.94427190999916) (doble 8.94427190999916) = Inr r \<and>
      valido_d r \<and> numDetectoresMinimo_d r = 2 \<and> numDetectoresReal_d r = 1 \<and>
      numDetectoresMinimo_d r \<le> numDetectoresReal_d r + 1) \<and>
   (\<exists>r. calcularEspaciamientoDetectoresDoble tiposDetectores 0 3 (doble 3.2) 25 = Inr r \<and>
      valido_d r \<and> numDetectoresMinimo_d r = 1 \<and> numDetectoresReal_d r = 3 \<and>
      numDetectoresMinimo_d r \<le> numDetectoresReal_d r + 1)"
proof -
  define l where "l = doble 8.94427190999916"
  define k where "k = doble 3.2"
  note c = lado_critico [OF l_def]
  note b = lado_32 [OF k_def]
  have p: "(1::int) * 1 \<le> 2 ^ 50" "(1::int) * 3 \<le> 2 ^ 50" "(0::real) < 25"
    by simp_all
  have "\<exists>r. calcularEspaciamientoDetectoresDoble tiposDetectores 0 3 l l = Inr r \<and>
    valido_d r \<and> numDetectoresMinimo_d r = 2 \<and> numDetectoresReal_d r = 1 \<and>
    numDetectoresMinimo_d r \<le> numDetectoresReal_d r + 1"
    using real_no_menor_que_minimo [where i = 0 and tabla = tiposDetectores
        and d = "tiposDetectores ! nat 0" and alturaM = 3 and c = 80
        and s = "doble (sqrt 80)" and nl = 1 and na = 1 and largoM = l and anchoM = l,
        OF detector_0_premisas(1,2) refl detector_0_premisas(3,4,5,6) refl c(1) c(1)
          c(3) c(3) p(1)]
    unfolding c(2) by simp
  moreover have "\<exists>r. calcularEspaciamientoDetectoresDoble tiposDetectores 0 3 k 25 = Inr r \<and>
    valido_d r \<and> numDetectoresMinimo_d r = 1 \<and> numDetectoresReal_d r = 3 \<and>
    numDetectoresMinimo_d r \<le> numDetectoresReal_d r + 1"
    using real_no_menor_que_minimo [where i = 0 and tabla = tiposDetectores
        and d = "tiposDetectores ! nat 0" and alturaM = 3 and c = 80
        and s = "doble (sqrt 80)" and nl = 1 and na = 3 and largoM = k and anchoM = 25,
        OF detector_0_premisas(1,2) refl detector_0_premisas(3,4,5,6) refl b(1) b(2)
          b(4) p(3) p(2)]
    unfolding b(3) by simp
  ultimately show ?thesis
    unfolding l_def k_def by (rule conjI)
qed

lemma escenario_critico:
  assumes "l = doble 8.94427190999916"
  shows "\<exists>r. calcularEspaciamientoDetectoresDoble tiposDetectores 0 3 l l = Inr r \<and>
    valido_d r \<and> detectoresLargo_d r = 1 \<and> detectoresAncho_d r = 1 \<and>
    numDetectoresReal_d r = 1 \<and> numDetectoresMinimo_d r = 2 \<and>
    numDetectoresReal_d r < numDetectoresMinimo_d r"
proof -
  note c = lado_critico [OF assms]
  show ?thesis
    by (subst planificacion_aceptada_doble [where i = 0 and tabla = tiposDetectores
        and d = "tiposDetectores ! nat 0" and alturaM = 3 and c = 80
        and s = "doble (sqrt 80)" and nl = 1 and na = 1,
        OF detector_0_premisas(1,2) refl detector_0_premisas(3,4,5,6) refl c(1) c(1)])
      (simp add: c(2))
qed

text \<open>
  C10 as stated fails in that room: the grid is 1 by 1 and the theoretical minimum is 2.
\<close>

theorem real_no_menor_que_minimo_counterexample:
  "\<exists>r. calcularEspaciamientoDetectoresDoble tiposDetectores 0 3
        (doble 8.94427190999916) (doble 8.94427190999916) = Inr r \<and>
    valido_d r \<and> detectoresLargo_d r = 1 \<and> detectoresAncho_d r = 1 \<and>
    numDetectoresReal_d r = 1 \<and> numDetectoresMinimo_d r = 2 \<and>
    numDetectoresReal_d r < numDetectoresMinimo_d r"
  by (rule escenario_critico [OF refl])

section \<open>The hydraulic calculators on doubles\<close>

subsection \<open>Sprinkler discharge\<close>

text \<open>
  The square root of a double moves by one part in \<open>2 ^ 53\<close> at most with it, so the flow
  before the last rounding is within one part in \<open>2 ^ 51\<close> of the factor times the exact
  root.
\<close>

lemma raiz_de_doble:
  assumes "0 \<le> x"
  shows "sqrt x * (1 - 1 / 2 ^ 53) \<le> sqrt (doble x)"
    and "sqrt (doble x) \<le> sqrt x * (1 + 1 / 2 ^ 53)"
proof -
  define d0 :: real where "d0 = 1 - 1 / 2 ^ 53"
  define d1 :: real where "d1 = 1 + 1 / 2 ^ 53"
  have d: "0 \<le> d0" "d0 * d0 \<le> d0" "0 \<le> d1" "d1 \<le> d1 * d1"
    by (simp_all add: d0_def d1_def)
  have "d0 \<le> sqrt d0"
    using d(2) by (intro real_le_rsqrt) (simp add: power2_eq_square)
  then have "sqrt x * d0 \<le> sqrt x * sqrt d0"
    using assms by (intro mult_left_mono) simp_all
  also have "\<dots> = sqrt (x * d0)"
    by (simp add: real_sqrt_mult)
  also have "\<dots> \<le> sqrt (doble x)"
    using doble_cotas(1) [OF assms] by (simp add: d0_def)
  finally show "sqrt x * (1 - 1 / 2 ^ 53) \<le> sqrt (doble x)"
    by (simp only: d0_def)
  have "sqrt d1 \<le> d1"
    using d(3,4) by (intro real_le_lsqrt) (simp_all add: power2_eq_square)
  have "sqrt (doble x) \<le> sqrt (x * d1)"
    using doble_cotas(2) [OF assms] by (simp add: d1_def)
  also have "\<dots> = sqrt x * sqrt d1"
    by (simp add: real_sqrt_mult)
  also have "\<dots> \<le> sqrt x * d1"
    using assms \<open>sqrt d1 \<le> d1\<close> by (intro mult_left_mono) simp_all
  finally show "sqrt (doble x) \<le> sqrt x * (1 + 1 / 2 ^ 53)"
    by (simp only: d1_def)
qed

lemma caudal_sin_redondear:
  fixes k p :: real
  assumes "0 < k" and "0 \<le> p"
  shows "k * sqrt p * (1 - 1 / 2 ^ 51) \<le> doble (k * doble (sqrt (doble p)))"
    and "doble (k * doble (sqrt (doble p))) \<le> k * sqrt p * (1 + 1 / 2 ^ 51)"
proof -
  define d0 :: real where "d0 = 1 - 1 / 2 ^ 53"
  define d1 :: real where "d1 = 1 + 1 / 2 ^ 53"
  define e where "e = k * sqrt p"
  have d: "0 \<le> d0" "0 \<le> d1" "1 - 1 / 2 ^ 51 \<le> d0 * d0 * d0" "d1 * d1 * d1 \<le> 1 + 1 / 2 ^ 51"
    by (simp_all add: d0_def d1_def)
  have e: "0 \<le> e"
    using assms by (simp add: e_def)
  have h: "0 \<le> doble p"
    using assms(2) by (rule doble_no_negativo)
  have r: "0 \<le> sqrt (doble p)"
    using h by simp
  have r1: "sqrt p * d0 \<le> sqrt (doble p)" and r2: "sqrt (doble p) \<le> sqrt p * d1"
    using raiz_de_doble [OF assms(2)] by (simp_all only: d0_def d1_def)
  have "sqrt p * d0 * d0 \<le> sqrt (doble p) * d0"
    using r1 d(1) by (intro mult_right_mono)
  also have "\<dots> \<le> doble (sqrt (doble p))"
    using doble_cotas(1) [OF r] by (simp only: d0_def)
  finally have s1: "sqrt p * d0 * d0 \<le> doble (sqrt (doble p))" .
  have "doble (sqrt (doble p)) \<le> sqrt (doble p) * d1"
    using doble_cotas(2) [OF r] by (simp only: d1_def)
  also have "\<dots> \<le> sqrt p * d1 * d1"
    using r2 d(2) by (intro mult_right_mono)
  finally have s2: "doble (sqrt (doble p)) \<le> sqrt p * d1 * d1" .
  have s0: "0 \<le> doble (sqrt (doble p))"
    using r by (rule doble_no_negativo)
  then have t0: "0 \<le> k * doble (sqrt (doble p))"
    using assms(1) by simp
  have "e * (d0 * d0 * d0) = k * (sqrt p * d0 * d0) * d0"
    by (simp add: e_def mult_ac)
  also have "\<dots> \<le> k * doble (sqrt (doble p)) * d0"
    using s1 assms(1) d(1) by (intro mult_right_mono mult_left_mono) simp_all
  also have "\<dots> \<le> doble (k * doble (sqrt (doble p)))"
    using doble_cotas(1) [OF t0] by (simp only: d0_def)
  finally have "e * (d0 * d0 * d0) \<le> doble (k * doble (sqrt (doble p)))" .
  moreover have "e * (1 - 1 / 2 ^ 51) \<le> e * (d0 * d0 * d0)"
    using d(3) e by (rule mult_left_mono)
  ultimately show "k * sqrt p * (1 - 1 / 2 ^ 51) \<le> doble (k * doble (sqrt (doble p)))"
    unfolding e_def by (rule order_trans [rotated])
  have "doble (k * doble (sqrt (doble p))) \<le> k * doble (sqrt (doble p)) * d1"
    using doble_cotas(2) [OF t0] by (simp only: d1_def)
  also have "\<dots> \<le> k * (sqrt p * d1 * d1) * d1"
    using s2 assms(1) d(2) by (intro mult_right_mono mult_left_mono) simp_all
  also have "\<dots> = e * (d1 * d1 * d1)"
    by (simp add: e_def mult_ac)
  also have "\<dots> \<le> e * (1 + 1 / 2 ^ 51)"
    using d(4) e by (rule mult_left_mono)
  finally show "doble (k * doble (sqrt (doble p))) \<le> k * sqrt p * (1 + 1 / 2 ^ 51)"
    by (simp only: e_def)
qed

lemma caudal_redondeado_cerca:
  fixes y q e :: real
  assumes "\<bar>y - q\<bar> \<le> 1 / 20 + (q + 1) / 2 ^ 51"
    and "e * (1 - 1 / 2 ^ 51) \<le> q" and "q \<le> e * (1 + 1 / 2 ^ 51)" and "0 \<le> e"
  shows "\<bar>q - e\<bar> \<le> e / 2 ^ 51" and "\<bar>y - e\<bar> \<le> 1 / 20 + (e + 1) / 2 ^ 49"
proof -
  define t where "t = e / 2 ^ 51"
  have "e * (1 - 1 / 2 ^ 51) = e - t" and "e * (1 + 1 / 2 ^ 51) = e + t"
    by (simp_all add: t_def algebra_simps)
  with assms(2,3) have "\<bar>q - e\<bar> \<le> t"
    by (simp add: abs_le_iff)
  then show a: "\<bar>q - e\<bar> \<le> e / 2 ^ 51"
    by (simp only: t_def)
  have "q \<le> 2 * e"
  proof -
    have "e * (1 + 1 / 2 ^ 51) \<le> e * 2"
      using assms(4) by (intro mult_left_mono) simp_all
    with assms(3) show ?thesis
      by simp
  qed
  then have "(q + 1) / 2 ^ 51 \<le> (2 * e + 1) / 2 ^ 51"
    by (intro divide_right_mono) simp_all
  with assms(1) a have "\<bar>y - q\<bar> + \<bar>q - e\<bar> \<le> 1 / 20 + (2 * e + 1) / 2 ^ 51 + e / 2 ^ 51"
    by linarith
  also have "\<dots> = 1 / 20 + (3 * e + 1) / 2 ^ 51"
    by (simp add: add_divide_distrib)
  also have "\<dots> \<le> 1 / 20 + (4 * e + 4) / 2 ^ 51"
    using assms(4) by (intro add_left_mono divide_right_mono) simp_all
  also have "\<dots> = 1 / 20 + (e + 1) / 2 ^ 49"
    by (simp add: add_divide_distrib)
  finally have "\<bar>y - q\<bar> + \<bar>q - e\<bar> \<le> 1 / 20 + (e + 1) / 2 ^ 49" .
  moreover have "\<bar>y - e\<bar> \<le> \<bar>y - q\<bar> + \<bar>q - e\<bar>"
    by simp
  ultimately show "\<bar>y - e\<bar> \<le> 1 / 20 + (e + 1) / 2 ^ 49"
    by (rule order_trans [rotated])
qed

text \<open>
  C6. For a positive K-factor and a pressure that is not negative, the discharge calculator
  returns the flow \<open>K * sqrt (P * 10)\<close>, computed on doubles, rounded to one decimal: the
  value returned is \<^verbatim>\<open>Math.round(caudal * 10) / 10\<close> for the unrounded flow \<open>caudal\<close>, which
  is within one part in \<open>2 ^ 51\<close> of the exact \<open>K * sqrt (P * 10)\<close>; so the value returned is
  within half a unit of the first decimal of the exact flow, up to that rounding error.
\<close>

theorem caudal_rociador:
  assumes "0 < factorK" and "0 \<le> presionBar"
    and "caudal = doble (factorK * doble (sqrt (doble (presionBar * 10))))"
  shows "\<exists>r. calcularCaudalRociador factorK presionBar = Inr r \<and>
    caudalLpm r = doble (Math_round (doble (caudal * 10)) / 10) \<and>
    \<bar>caudal - factorK * sqrt (presionBar * 10)\<bar> \<le> factorK * sqrt (presionBar * 10) / 2 ^ 51 \<and>
    \<bar>caudalLpm r - caudal\<bar> \<le> 1 / 20 + (caudal + 1) / 2 ^ 51 \<and>
    \<bar>caudalLpm r - factorK * sqrt (presionBar * 10)\<bar>
      \<le> 1 / 20 + (factorK * sqrt (presionBar * 10) + 1) / 2 ^ 49"
proof -
  define y where "y = doble (Math_round (doble (caudal * 10)) / 10)"
  define e where "e = factorK * sqrt (presionBar * 10)"
  have p: "0 \<le> presionBar * 10"
    using assms(2) by simp
  then have h: "\<not> doble (presionBar * 10) < 0"
    using doble_no_negativo [of "presionBar * 10"] by simp
  have e: "0 \<le> e"
    using assms(1) p by (simp add: e_def)
  have c: "e * (1 - 1 / 2 ^ 51) \<le> caudal" "caudal \<le> e * (1 + 1 / 2 ^ 51)"
    using caudal_sin_redondear [OF assms(1) p] by (simp_all only: assms(3) e_def)
  have "0 \<le> e * (1 - 1 / 2 ^ 51)"
    using e by (intro mult_nonneg_nonneg) simp_all
  with c(1) have q: "0 \<le> caudal"
    by linarith
  have "\<bar>y - caudal\<bar> \<le> 1 / (2 * 10) + (\<bar>caudal\<bar> + 1) / 2 ^ 51"
    unfolding y_def by (rule redondeo_doble_cerca) simp
  then have 1: "\<bar>y - caudal\<bar> \<le> 1 / 20 + (caudal + 1) / 2 ^ 51"
    using q by simp
  note 2 = caudal_redondeado_cerca [OF 1 c e]
  have "calcularCaudalRociador factorK presionBar = Inr \<lparr>caudalLpm = y\<rparr>"
    using h by (simp add: calcularCaudalRociador_def Let_def y_def assms(3))
  then show ?thesis
    using 1 2 unfolding e_def y_def by simp
qed

text \<open>
  A K-factor of 80 at 0.5 bar: the double \<^verbatim>\<open>178.9\<close>. A K-factor of \<^verbatim>\<open>50.05\<close> at
  \<^verbatim>\<open>0.1\<close> bar: the product by 10 is a tie between two doubles and rounds to 500.5, so
  the flow returned is \<^verbatim>\<open>50.1\<close>, although both doubles are below the decimals they
  stand for.
\<close>

lemma sqrt5_cotas: "2.236 \<le> sqrt 5" "sqrt 5 \<le> 2.2361"
proof -
  show "2.236 \<le> sqrt 5"
    by (rule real_le_rsqrt) (simp add: power2_eq_square)
  show "sqrt 5 \<le> 2.2361"
    by (rule real_le_lsqrt) (simp_all add: power2_eq_square)
qed

lemma caudal_80_medio_bar:
  "doble (Math_round (doble (doble (80 * doble (sqrt 5)) * 10)) / 10) = doble (1789 / 10)"
proof -
  have a: "2.2359 \<le> doble (sqrt 5)"
    by (rule doble_inf [OF sqrt5_cotas(1)]) simp_all
  have b: "doble (sqrt 5) \<le> 2.2362"
    by (rule doble_sup [OF sqrt5_cotas(2)]) simp_all
  have a2: "178.872 \<le> 80 * doble (sqrt 5)" and b2: "80 * doble (sqrt 5) \<le> 178.896"
    using a b by simp_all
  have a3: "178.87 \<le> doble (80 * doble (sqrt 5))"
    by (rule doble_inf [OF a2]) simp_all
  have "0 \<le> 80 * doble (sqrt 5)"
    using a2 by simp
  then have b3: "doble (80 * doble (sqrt 5)) \<le> 178.897"
    by (rule doble_sup [OF b2]) simp
  have a4: "1788.7 \<le> doble (80 * doble (sqrt 5)) * 10"
    and b4: "doble (80 * doble (sqrt 5)) * 10 \<le> 1788.97"
    using a3 b3 by simp_all
  have a5: "1788.6 \<le> doble (doble (80 * doble (sqrt 5)) * 10)"
    by (rule doble_inf [OF a4]) simp_all
  have "0 \<le> doble (80 * doble (sqrt 5)) * 10"
    using a4 by simp
  then have b5: "doble (doble (80 * doble (sqrt 5)) * 10) \<le> 1788.98"
    by (rule doble_sup [OF b4]) simp
  have "Math_round (doble (doble (80 * doble (sqrt 5)) * 10)) = 1789"
    using redondeo_entre [of 1789 "doble (doble (80 * doble (sqrt 5)) * 10)"] a5 b5 by simp
  then show ?thesis
    by simp
qed

lemma caudal_5005:
  assumes "k = doble 50.05" and "p = doble 0.1"
  shows "0 < k" and "0 \<le> p"
    and "doble (Math_round (doble (doble (k * doble (sqrt (doble (p * 10)))) * 10)) / 10) =
      doble (501 / 10)"
proof -
  have "doble 50.05 = 7043911292184166 / 2 ^ 47"
    using doble_evalua_fraccion [where n = 47 and x = "50.05" and m = 7043911292184166]
    by simp
  then have k: "k = 7043911292184166 / 2 ^ 47"
    using assms(1) by (simp only:)
  have "doble 0.1 = 7205759403792794 / 2 ^ 56"
    using doble_evalua_fraccion [where n = 56 and x = "0.1" and m = 7205759403792794]
    by simp
  then have p: "p = 7205759403792794 / 2 ^ 56"
    using assms(2) by (simp only:)
  show "0 < k" and "0 \<le> p"
    unfolding k p by simp_all
  have 1: "doble (p * 10) = 1"
    unfolding p
    using doble_evalua_fraccion [where n = 52 and m = 4503599627370496
        and x = "7205759403792794 / 2 ^ 56 * 10"]
    by simp
  have 2: "doble k = k"
    unfolding k using doble_diadico [of 7043911292184166 47] by simp
  have 3: "doble (k * 10) = 1001 / 2"
    unfolding k
    using doble_empate_fraccion [where n = 44 and k = 8804889115230207
        and x = "7043911292184166 / 2 ^ 47 * 10"]
    by simp
  have 4: "Math_round (1001 / 2) = 501"
    using redondeo_entre [of 501 "1001 / 2"] by simp
  show "doble (Math_round (doble (doble (k * doble (sqrt (doble (p * 10)))) * 10)) / 10) =
      doble (501 / 10)"
    by (simp add: 1 2 3 4)
qed

theorem caudal_rociador_witness:
  "(\<exists>r. calcularCaudalRociador 80 0.5 = Inr r \<and> caudalLpm r = doble 178.9 \<and>
      \<bar>caudalLpm r - 80 * sqrt 5\<bar> \<le> 1 / 20 + (80 * sqrt 5 + 1) / 2 ^ 49) \<and>
   (\<exists>r. calcularCaudalRociador (doble 50.05) (doble 0.1) = Inr r \<and>
      caudalLpm r = doble 50.1)"
proof -
  have k: "(0::real) < 80" and p: "(0::real) \<le> 1 / 2"
    by simp_all
  from caudal_rociador [OF k p refl]
  obtain r where "calcularCaudalRociador 80 (1 / 2) = Inr r"
    and "caudalLpm r =
      doble (Math_round (doble (doble (80 * doble (sqrt (doble (1 / 2 * 10)))) * 10)) / 10)"
    and "\<bar>caudalLpm r - 80 * sqrt (1 / 2 * 10)\<bar> \<le> 1 / 20 + (80 * sqrt (1 / 2 * 10) + 1) / 2 ^ 49"
    by blast
  then have 1: "\<exists>r. calcularCaudalRociador 80 0.5 = Inr r \<and> caudalLpm r = doble 178.9 \<and>
      \<bar>caudalLpm r - 80 * sqrt 5\<bar> \<le> 1 / 20 + (80 * sqrt 5 + 1) / 2 ^ 49"
    by (simp add: doble_numeral caudal_80_medio_bar)
  define f where "f = doble 50.05"
  define b where "b = doble 0.1"
  note c = caudal_5005 [OF f_def b_def]
  from caudal_rociador [OF c(1,2) refl]
  obtain e where "calcularCaudalRociador f b = Inr e"
    and "caudalLpm e =
      doble (Math_round (doble (doble (f * doble (sqrt (doble (b * 10)))) * 10)) / 10)"
    by blast
  then have "\<exists>r. calcularCaudalRociador f b = Inr r \<and> caudalLpm r = doble (501 / 10)"
    by (simp only: c(3)) simp
  then have 2: "\<exists>r. calcularCaudalRociador (doble 50.05) (doble 0.1) = Inr r \<and>
      caudalLpm r = doble 50.1"
    unfolding f_def b_def by simp
  from 1 2 show ?thesis
    by (rule conjI)
qed

subsection \<open>Friction loss on doubles\<close>






end
